theory Spec2Isabelle
  imports Complex_Main "HOL-Library.List_Lexorder" "HOL-Library.Sublist"
begin

section \<open>Data model of the BoltzTraP1 interpolater\<close>

text \<open>
  The source computes with numpy arrays of float64. The embedding takes the real numbers
  for float64 and fixes the shapes that the source fixes: a 3-vector is a triple, a 3x3
  matrix is a triple of rows. Rounding, signed zeros, infinities and NaN are not modelled:
  the embedding computes what the source computes where the float64 operations are exact
  (as the products of integer operations with integer G-vectors are) and where no division
  by zero occurs; elsewhere it states the source's formulas over the reals.
\<close>

type_synonym vec3 = "real \<times> real \<times> real"
type_synonym mat3 = "vec3 \<times> vec3 \<times> vec3"
type_synonym ivec3 = "int \<times> int \<times> int"
type_synonym imat3 = "ivec3 \<times> ivec3 \<times> ivec3"

text \<open>
  Every exception the modelled code can raise, named after the place that raises it.
  In Python all of them but \<open>IndexError\<close> and \<open>KeyError\<close> are \<open>ValueError\<close>s; the two
  that the source raises itself carry their message.
\<close>

datatype error =
    HeaderUnpack                      \<comment> \<open>the header line does not split into 4 tokens\<close>
  | IntParse                          \<comment> \<open>\<open>int()\<close> of a header token fails\<close>
  | NegativeDimension                 \<comment> \<open>\<open>np.zeros\<close> with a negative dimension\<close>
  | ArrayTooBig                       \<comment> \<open>\<open>np.zeros\<close> of more than \<open>2^63 - 1\<close> bytes\<close>
  | RowAssign                         \<comment> \<open>\<open>g_vectors[i] = ...\<close> cannot broadcast\<close>
  | BandUnpack                        \<comment> \<open>the band line does not hold 2 integers\<close>
  | EmptyMax                          \<comment> \<open>\<open>max\<close> of an empty sequence\<close>
  | BandOutOfRange string             \<comment> \<open>raised by \<open>_get_interpolation_coefficients\<close>\<close>
  | IndexError                        \<comment> \<open>index array out of bounds\<close>
  | MissingBandTypeForScissor string  \<comment> \<open>raised by \<open>get_energies\<close>\<close>
  | ShapeError                        \<comment> \<open>\<open>dot\<close> or broadcasting of mismatched shapes\<close>
  | KeyError                          \<comment> \<open>no entry in the global \<open>_parameters\<close>\<close>
  | PoolSize                          \<comment> \<open>\<open>multiprocessing.Pool\<close> with less than 1 process\<close>

text \<open>
  A line of the coefficient file is given by what \<open>np.fromstring(l, sep=' ')\<close> reads
  from it, with the default dtype (float) and with \<open>dtype=int\<close>. The two readings are
  independent fields: with \<open>dtype=int\<close> numpy stops at the first token that is not an
  integer, so the second is not a function of the first. The numbers of \<open>as_int\<close> are
  int64 values.
\<close>

record line =
  as_float :: "real list"
  as_int :: "int list"

text \<open>
  The file: the tokens of the first line, each with the value \<open>int()\<close> gives it
  (\<open>None\<close> where \<open>int()\<close> raises), and the lines that follow. The third field is not
  in the file but in the memory of the process that reads it: \<open>np.fromstring\<close> with
  \<open>count=n\<close> returns an array of \<open>n\<close> numbers also when the line holds fewer, and
  leaves the rest of the array as it finds it. \<open>unwritten r k\<close> is what the array of the
  \<open>r\<close>-th such read (0 for the cell matrix, 1 for the symmetry operations) holds at
  position \<open>k\<close> before the read.
\<close>

record coefficient_file =
  header :: "int option list"
  body :: "line list"
  unwritten :: "nat \<Rightarrow> nat \<Rightarrow> real"

record BoltzTraP1Parameters =
  num_symmetries :: int
  coefficients :: "real list list"
  min_band :: int
  max_band :: int
  allowed_ibands :: "int set"
  num_star_vectors :: "nat list"
  star_vectors :: "vec3 list list"
  star_vector_products :: "vec3 list list"
  star_vector_products_sq :: "mat3 list list"

section \<open>Small linear algebra\<close>

definition zero3 :: vec3 where
  "zero3 = (0, 0, 0)"

definition zero33 :: mat3 where
  "zero33 = (zero3, zero3, zero3)"

fun dot3 :: "vec3 \<Rightarrow> vec3 \<Rightarrow> real" where
  "dot3 (a, b, c) (x, y, z) = a * x + b * y + c * z"

fun scale3 :: "real \<Rightarrow> vec3 \<Rightarrow> vec3" where
  "scale3 s (x, y, z) = (s * x, s * y, s * z)"

fun add3 :: "vec3 \<Rightarrow> vec3 \<Rightarrow> vec3" where
  "add3 (a, b, c) (x, y, z) = (a + x, b + y, c + z)"

fun abs3 :: "vec3 \<Rightarrow> vec3" where
  "abs3 (x, y, z) = (\<bar>x\<bar>, \<bar>y\<bar>, \<bar>z\<bar>)"

fun map33 :: "(real \<Rightarrow> real) \<Rightarrow> mat3 \<Rightarrow> mat3" where
  "map33 f ((a, b, c), (d, e, g), (h, i, j)) = ((f a, f b, f c), (f d, f e, f g), (f h, f i, f j))"

fun add33 :: "mat3 \<Rightarrow> mat3 \<Rightarrow> mat3" where
  "add33 (r1, r2, r3) (s1, s2, s3) = (add3 r1 s1, add3 r2 s2, add3 r3 s3)"

fun transpose33 :: "mat3 \<Rightarrow> mat3" where
  "transpose33 ((a, b, c), (d, e, g), (h, i, j)) = ((a, d, h), (b, e, i), (c, g, j))"

text \<open>\<open>M.dot(v)\<close> for a 3x3 matrix and a 3-vector.\<close>

fun mat_vec :: "mat3 \<Rightarrow> vec3 \<Rightarrow> vec3" where
  "mat_vec (r1, r2, r3) v = (dot3 r1 v, dot3 r2 v, dot3 r3 v)"

text \<open>\<open>v.dot(M)\<close> for a 3-vector and a 3x3 matrix.\<close>

fun vec_mat :: "vec3 \<Rightarrow> mat3 \<Rightarrow> vec3" where
  "vec_mat v m = mat_vec (transpose33 m) v"

text \<open>An integer operation matrix applied to a real vector (numpy promotes to float).\<close>

fun real3 :: "ivec3 \<Rightarrow> vec3" where
  "real3 (a, b, c) = (real_of_int a, real_of_int b, real_of_int c)"

fun op_vec :: "imat3 \<Rightarrow> vec3 \<Rightarrow> vec3" where
  "op_vec (r1, r2, r3) v = (dot3 (real3 r1) v, dot3 (real3 r2) v, dot3 (real3 r3) v)"

text \<open>
  Modelled from the spec: \<open>amset.utils.general.outer\<close> is not part of the source given;
  the spec calls it the outer product (3x3) of a vector with a vector.
\<close>

fun outer :: "vec3 \<Rightarrow> vec3 \<Rightarrow> mat3" where
  "outer (a, b, c) v = (scale3 a v, scale3 b v, scale3 c v)"

section \<open>The coefficient file parser\<close>

text \<open>\<open>f.readline()\<close>: at the end of the file it returns the empty string.\<close>

definition readline :: "line list \<Rightarrow> line \<times> line list" where
  "readline ls = (case ls of [] \<Rightarrow> (\<lparr>as_float = [], as_int = []\<rparr>, []) | l # r \<Rightarrow> (l, r))"

text \<open>
  The integers of numpy are int64: a sum or a difference that leaves the range
  \<open>[-2^63, 2^63)\<close> wraps around. \<open>wrap64\<close> leaves an int64 value as it is.
\<close>

definition wrap64 :: "int \<Rightarrow> int" where
  "wrap64 x = (x + 2 ^ 63) mod 2 ^ 64 - 2 ^ 63"

text \<open>
  \<open>astype('int')\<close> of a float: truncation towards zero; a float outside the int64 range
  gives the smallest int64 (the conversion of x86-64).
\<close>

definition trunc :: "real \<Rightarrow> int" where
  "trunc x = (if 0 \<le> x then \<lfloor>x\<rfloor> else \<lceil>x\<rceil>)"

definition astype_int :: "real \<Rightarrow> int" where
  "astype_int x =
     (if - (2 ^ 63) \<le> trunc x \<and> trunc x < 2 ^ 63 then trunc x else - (2 ^ 63))"

text \<open>
  \<open>np.fromstring(l, sep=' ', count=n)\<close>: an array of \<open>n\<close> numbers. At most \<open>n\<close> numbers
  of the line are read into it; the positions that the line does not fill keep what
  the array held (\<open>rest\<close>). So the reshape that follows never fails.
\<close>

definition read_count :: "nat \<Rightarrow> (nat \<Rightarrow> real) \<Rightarrow> real list \<Rightarrow> real list" where
  "read_count n rest xs = take n xs @ map rest [length xs..<n]"

text \<open>
  \<open>np.zeros\<close> of float64 with the dimensions \<open>dims\<close>: a negative dimension raises, and
  so does an array of more than \<open>2^63 - 1\<close> bytes (numpy multiplies the item size by the
  dimensions that are not 0). Running out of memory below that size is not modelled.
\<close>

definition zeros_check :: "int list \<Rightarrow> error option" where
  "zeros_check dims =
     (if \<exists>d \<in> set dims. d < 0 then Some NegativeDimension
      else if 2 ^ 63 \<le> 8 * prod_list (filter (\<lambda>d. d \<noteq> 0) dims) then Some ArrayTooBig
      else None)"

definition cell_of :: "real list \<Rightarrow> mat3" where
  "cell_of xs = ((xs ! 0, xs ! 1, xs ! 2), (xs ! 3, xs ! 4, xs ! 5), (xs ! 6, xs ! 7, xs ! 8))"

text \<open>
  Operation \<open>s\<close> of the flat list of 192 * 9 integers, after \<open>reshape((192, 3, 3))\<close> and
  \<open>np.transpose(..., axes=(0, 2, 1))\<close>: entry \<open>[j][k]\<close> is entry \<open>[k][j]\<close> of the file.
\<close>

definition sym_op_at :: "int list \<Rightarrow> nat \<Rightarrow> imat3" where
  "sym_op_at xs s =
     ((xs ! (9 * s), xs ! (9 * s + 3), xs ! (9 * s + 6)),
      (xs ! (9 * s + 1), xs ! (9 * s + 4), xs ! (9 * s + 7)),
      (xs ! (9 * s + 2), xs ! (9 * s + 5), xs ! (9 * s + 8)))"

definition sym_ops_of :: "real list \<Rightarrow> imat3 list" where
  "sym_ops_of xs = map (sym_op_at (map astype_int xs)) [0..<192]"

text \<open>
  \<open>g_vectors[i] = np.fromstring(l, sep=' ')\<close>: the right-hand side is broadcast to the
  row of shape (3,), so an array of 3 numbers is stored as it is, an array of 1 number is
  repeated, and any other length raises.
\<close>

definition row_of :: "real list \<Rightarrow> error + vec3" where
  "row_of xs =
     (case xs of
        [x, y, z] \<Rightarrow> Inr (x, y, z)
      | [x] \<Rightarrow> Inr (x, x, x)
      | _ \<Rightarrow> Inl RowAssign)"

text \<open>
  The loop \<open>for i, l in enumerate(f)\<close> over the lines after the symmetry line, with the
  local variables it updates: \<open>g_vectors\<close>, \<open>coefficients\<close>, \<open>iband\<close>, \<open>min_band\<close>,
  \<open>max_band\<close>. The loop ends at the end of the file, or at the \<open>break\<close> when the last
  expected coefficient line has been read. \<open>min_band\<close> and \<open>max_band\<close> are int64, and so
  is the arithmetic of \<open>max_band + 1\<close> and of the line numbers
  \<open>num_g_vectors + (b - min_band + 1)\<close>; \<open>range(a, b)\<close> is the list \<open>[a..b - 1]\<close>.
\<close>

type_synonym loop_vars = "vec3 list \<times> real list list \<times> int list \<times> int \<times> int"

fun read_lines :: "int \<Rightarrow> int \<Rightarrow> line list \<Rightarrow> loop_vars \<Rightarrow> error + loop_vars" where
  "read_lines n i [] vars = Inr vars"
| "read_lines n i (l # ls) (gs, cs, ib, lo, hi) =
     (if i < n then
        (case row_of (as_float l) of
           Inl err \<Rightarrow> Inl err
         | Inr v \<Rightarrow> read_lines n (i + 1) ls (gs[nat i := v], cs, ib, lo, hi))
      else if i = n then
        (case as_int l of
           [a, b] \<Rightarrow>
             (let lo' = wrap64 a; hi' = wrap64 b
              in read_lines n (i + 1) ls
                   (gs, cs,
                    map (\<lambda>b. wrap64 (n + wrap64 (wrap64 (b - lo') + 1)))
                      [lo'..wrap64 (hi' + 1) - 1],
                    lo', hi'))
         | _ \<Rightarrow> Inl BandUnpack)
      else if i \<in> set ib then
        (let cs' = cs @ [as_float l]; ib' = remove1 i ib
         in if ib' = [] then Inr (gs, cs', ib', lo, hi)
            else read_lines n (i + 1) ls (gs, cs', ib', lo, hi))
      else read_lines n (i + 1) ls (gs, cs, ib, lo, hi))"

subsection \<open>Star functions\<close>

text \<open>
  The 8 bytes that a float64 takes in memory, lowest byte first (little-endian), for a
  number that float64 holds exactly in its normal range: the sign bit, the exponent
  \<open>e\<close> (the integer part of the base-2 logarithm of the absolute value) plus 1023 on 11
  bits, and the 52 bits of the fraction \<open>|x| / 2^e - 1\<close>.
\<close>

fun bit_length :: "nat \<Rightarrow> nat" where
  "bit_length n = (if n = 0 then 0 else Suc (bit_length (n div 2)))"

declare bit_length.simps [simp del]

definition exponent64 :: "real \<Rightarrow> int" where
  "exponent64 x =
     (if 1 \<le> \<bar>x\<bar> then int (bit_length (nat \<lfloor>\<bar>x\<bar>\<rfloor>)) - 1
      else - int (bit_length (nat \<lceil>1 / \<bar>x\<bar>\<rceil> - 1)))"

definition float64_bits :: "real \<Rightarrow> nat" where
  "float64_bits x =
     (if x = 0 then 0
      else
        (let e = exponent64 x;
             m = (if 0 \<le> e then \<bar>x\<bar> / 2 ^ nat e else \<bar>x\<bar> * 2 ^ nat (- e))
         in (if x < 0 then 2 ^ 63 else 0) + nat (e + 1023) * 2 ^ 52 +
            nat \<lfloor>(m - 1) * 2 ^ 52\<rfloor>))"

fun bytes_le :: "nat \<Rightarrow> nat \<Rightarrow> nat list" where
  "bytes_le 0 v = []"
| "bytes_le (Suc n) v = (v mod 256) # bytes_le n (v div 256)"

definition row_bytes :: "vec3 \<Rightarrow> nat list" where
  "row_bytes v =
     (case v of (x, y, z) \<Rightarrow>
        bytes_le 8 (float64_bits x) @ bytes_le 8 (float64_bits y) @ bytes_le 8 (float64_bits z))"

text \<open>
  \<open>np.unique\<close> of the rows of \<open>trial\<close>, each row viewed as one item of 24 opaque bytes
  (\<open>np.void\<close>): the distinct rows, sorted as numpy sorts such items, by comparing their
  bytes from the first on. So (1, 0, 0) comes before (-1, 0, 0): the sign is in the last
  byte of a number.
\<close>

definition unique_rows :: "vec3 list \<Rightarrow> vec3 list" where
  "unique_rows rows = sort_key row_bytes (remdups rows)"

definition calculate_star_function :: "imat3 list \<Rightarrow> int \<Rightarrow> vec3 \<Rightarrow> nat \<times> vec3 list" where
  "calculate_star_function sym_ops nsym g_vector =
     (let trial = map (\<lambda>m. op_vec m g_vector) (take (nat nsym) sym_ops);
          stg = unique_rows trial;
          nst = length stg
      in (nst, stg @ replicate (nat (nsym - int nst)) zero3))"

text \<open>
  \<open>star_vector_products_sq\<close> is allocated with \<open>max(num_star_vectors)\<close> slots for every
  G-vector and filled for \<open>i < num_star_vectors[nw]\<close>.
\<close>

definition products_sq_row :: "nat \<Rightarrow> nat \<Rightarrow> vec3 list \<Rightarrow> mat3 list" where
  "products_sq_row width nst products =
     map (\<lambda>v. outer v v) (take nst products) @ replicate (width - nst) zero33"

text \<open>
  The part of \<open>_get_interpolation_parameters\<close> after the file is read: the star functions
  and their products, for the G-vectors \<open>g_vectors\<close>. \<open>allowed_ibands\<close> is
  \<open>set(range(min_band, max_band + 1))\<close>, where \<open>max_band + 1\<close> is an int64 sum.
  \<open>np.zeros((num_g_vectors, num_symmetries, 3))\<close> raises for a negative
  \<open>num_symmetries\<close>, and \<open>max(num_star_vectors)\<close> raises when there is no G-vector.
\<close>

definition star_parameters ::
  "int \<Rightarrow> mat3 \<Rightarrow> imat3 list \<Rightarrow> vec3 list \<Rightarrow> real list list \<Rightarrow> int \<Rightarrow> int
     \<Rightarrow> error + BoltzTraP1Parameters" where
  "star_parameters nsym cell_matrix sym_ops g_vectors coeffs lo hi =
     (case zeros_check [int (length g_vectors), nsym, 3] of
        Some err \<Rightarrow> Inl err
      | None \<Rightarrow>
        (let stars = map (calculate_star_function sym_ops nsym) g_vectors;
             nsts = map fst stars;
             svs = map snd stars;
             svps = map (map (\<lambda>v. vec_mat v cell_matrix)) svs
         in if nsts = [] then Inl EmptyMax
            else
              Inr \<lparr>num_symmetries = nsym, coefficients = coeffs,
                   min_band = lo, max_band = hi,
                   allowed_ibands = set [lo..wrap64 (hi + 1) - 1],
                   num_star_vectors = nsts, star_vectors = svs,
                   star_vector_products = svps,
                   star_vector_products_sq =
                     map (\<lambda>(nst, svp). products_sq_row (fold max (tl nsts) (hd nsts)) nst svp)
                       (zip nsts svps)\<rparr>))"

definition get_interpolation_parameters :: "coefficient_file \<Rightarrow> error + BoltzTraP1Parameters" where
  "get_interpolation_parameters f =
     (case header f of
        [_, t2, t3, _] \<Rightarrow>
          (case t2 of None \<Rightarrow> Inl IntParse | Some num_g_vectors \<Rightarrow>
          (case t3 of None \<Rightarrow> Inl IntParse | Some nsym \<Rightarrow>
          (case readline (body f) of (l1, rest1) \<Rightarrow>
          (case readline rest1 of (l2, rest2) \<Rightarrow>
          (let cell_flat = read_count 9 (unwritten f 0) (as_float l1);
               sym_flat = read_count (9 * 192) (unwritten f 1) (as_float l2)
           in case zeros_check [num_g_vectors, 3] of
                Some err \<Rightarrow> Inl err
              | None \<Rightarrow>
                  (case read_lines num_g_vectors 0 rest2
                          (replicate (nat num_g_vectors) zero3, [], [], 0, 0) of
                     Inl err \<Rightarrow> Inl err
                   | Inr (g_vectors, coeffs, ib, lo, hi) \<Rightarrow>
                       star_parameters nsym (cell_of cell_flat) (sym_ops_of sym_flat)
                         g_vectors coeffs lo hi))))))
      | _ \<Rightarrow> Inl HeaderUnpack)"

section \<open>Interpolation coefficients of a band\<close>

text \<open>The argument \<open>iband\<close>: an int, a list of ints, or \<open>None\<close>.\<close>

datatype band_request = Index int | Indices "int list" | NoBand

text \<open>What \<open>_get_interpolation_coefficients\<close> returns: one row (1-D) or a block of rows.\<close>

datatype coeffs = Band "real list" | Bands "real list list"

fun str_nat :: "nat \<Rightarrow> string" where
  "str_nat n =
     (if n < 10 then [''0123456789'' ! n]
      else str_nat (n div 10) @ [''0123456789'' ! (n mod 10)])"

definition str_int :: "int \<Rightarrow> string" where
  "str_int i = (if i < 0 then ''-'' @ str_nat (nat (- i)) else str_nat (nat i))"

definition band_message :: "int \<Rightarrow> int \<Rightarrow> string" where
  "band_message lo hi =
     ''At least one band is not in range : '' @ str_int lo @ ''-'' @ str_int hi @
     ''. Try increasing max_Ecut to include more bands.''"

text \<open>
  \<open>a[idx]\<close> for a list of integer indices: an index outside \<open>[-n, n)\<close> raises
  \<open>IndexError\<close>, a negative index counts from the end.
\<close>

definition index_one :: "'a list \<Rightarrow> int \<Rightarrow> error + 'a" where
  "index_one xs i =
     (if - int (length xs) \<le> i \<and> i < 0 then Inr (xs ! nat (int (length xs) + i))
      else if 0 \<le> i \<and> i < int (length xs) then Inr (xs ! nat i)
      else Inl IndexError)"

fun sequence :: "(error + 'a) list \<Rightarrow> error + 'a list" where
  "sequence [] = Inr []"
| "sequence (x # xs) =
     (case x of
        Inl err \<Rightarrow> Inl err
      | Inr y \<Rightarrow> (case sequence xs of Inl err \<Rightarrow> Inl err | Inr ys \<Rightarrow> Inr (y # ys)))"

definition fancy_index :: "'a list \<Rightarrow> int list \<Rightarrow> error + 'a list" where
  "fancy_index xs idx = sequence (map (index_one xs) idx)"

definition get_interpolation_coefficients ::
  "BoltzTraP1Parameters \<Rightarrow> band_request \<Rightarrow> error + coeffs" where
  "get_interpolation_coefficients p req =
     (let iband1 = (case req of Index b \<Rightarrow> [b] | Indices bs \<Rightarrow> bs | NoBand \<Rightarrow> []);
          iband2 = (if iband1 = [] then sorted_list_of_set (allowed_ibands p) else iband1)
      in if \<not> set iband2 \<subseteq> allowed_ibands p
         then Inl (BandOutOfRange (band_message (min_band p) (max_band p)))
         else
           (let iband3 = map (\<lambda>b. wrap64 (b - min_band p)) iband2
            in case fancy_index (coefficients p) iband3 of
                 Inl err \<Rightarrow> Inl err
               | Inr rows \<Rightarrow> if length iband3 = 1 then Inr (Band (rows ! 0)) else Inr (Bands rows)))"


section \<open>Evaluation at one k-point\<close>

text \<open>
  The constants of \<open>amset.utils.constants\<close> are not part of the source given; the
  evaluator takes them as a parameter. \<open>elementary_charge\<close> is the source's \<open>e\<close>.
\<close>

record constants =
  Ry_to_eV :: real
  hbar :: real
  A_to_m :: real
  m_to_cm :: real
  m_e :: real
  elementary_charge :: real

text \<open>
  numpy broadcasting along one axis: equal lengths combine elementwise, a length of 1
  is repeated, anything else raises.
\<close>

definition broadcast2 :: "('a \<Rightarrow> 'b \<Rightarrow> error + 'c) \<Rightarrow> 'a list \<Rightarrow> 'b list \<Rightarrow> error + 'c list" where
  "broadcast2 f xs ys =
     (if length xs = length ys then sequence (map2 f xs ys)
      else if length xs = 1 then sequence (map (f (hd xs)) ys)
      else if length ys = 1 then sequence (map (\<lambda>x. f x (hd ys)) xs)
      else Inl ShapeError)"

definition sum3 :: "vec3 list \<Rightarrow> vec3" where
  "sum3 vs = foldr add3 vs zero3"

definition sum33 :: "mat3 list \<Rightarrow> mat3" where
  "sum33 ms = foldr add33 ms zero33"

text \<open>\<open>arg = 2 * np.pi * parameters.star_vectors.dot(kpoint)\<close>, of shape (G, S).\<close>

definition arg :: "BoltzTraP1Parameters \<Rightarrow> vec3 \<Rightarrow> real list list" where
  "arg p kpoint = map (map (\<lambda>v. 2 * pi * dot3 v kpoint)) (star_vectors p)"

definition spwre :: "BoltzTraP1Parameters \<Rightarrow> vec3 \<Rightarrow> error + real list" where
  "spwre p kpoint =
     broadcast2
       (\<lambda>s nst. Inr ((s - (real_of_int (num_symmetries p) - real nst)) / real nst))
       (map (\<lambda>row. sum_list (map cos row)) (arg p kpoint))
       (num_star_vectors p)"

definition dspwre :: "BoltzTraP1Parameters \<Rightarrow> vec3 \<Rightarrow> error + vec3 list" where
  "dspwre p kpoint =
     (case broadcast2 (broadcast2 (\<lambda>v s. Inr (scale3 s v)))
             (star_vector_products p) (map (map sin) (arg p kpoint)) of
        Inl err \<Rightarrow> Inl err
      | Inr prods \<Rightarrow>
          broadcast2 (\<lambda>v nst. Inr (scale3 (1 / real nst) v))
            (map sum3 prods) (num_star_vectors p))"

definition ddspwre :: "BoltzTraP1Parameters \<Rightarrow> vec3 \<Rightarrow> error + mat3 list" where
  "ddspwre p kpoint =
     (case broadcast2 (broadcast2 (\<lambda>m c. Inr (map33 (\<lambda>x. x * (- c)) m)))
             (star_vector_products_sq p) (map (map cos) (arg p kpoint)) of
        Inl err \<Rightarrow> Inl err
      | Inr prods \<Rightarrow>
          broadcast2 (\<lambda>m nst. Inr (map33 (\<lambda>x. x / real nst) m))
            (map sum33 prods) (num_star_vectors p))"

text \<open>
  \<open>np.dot\<close> of a per-G-vector quantity with one coefficient vector: the lengths must
  agree. For the 3x3 case the source contracts \<open>ddspwre.T\<close>, which reverses all axes.
\<close>

definition dot_real :: "real list \<Rightarrow> real list \<Rightarrow> error + real" where
  "dot_real xs c =
     (if length xs = length c then Inr (sum_list (map2 (*) xs c)) else Inl ShapeError)"

definition dot_vec :: "vec3 list \<Rightarrow> real list \<Rightarrow> error + vec3" where
  "dot_vec vs c =
     (if length vs = length c then Inr (sum3 (map2 (\<lambda>v x. scale3 x v) vs c))
      else Inl ShapeError)"

definition dot_mat :: "mat3 list \<Rightarrow> real list \<Rightarrow> error + mat3" where
  "dot_mat ms c =
     (if length ms = length c
      then Inr (transpose33 (sum33 (map2 (\<lambda>m x. map33 (\<lambda>y. x * y) m) ms c)))
      else Inl ShapeError)"

text \<open>\<open>np.linalg.norm\<close> of a matrix: the Frobenius norm.\<close>

fun norm33 :: "mat3 \<Rightarrow> real" where
  "norm33 (r1, r2, r3) = sqrt (dot3 r1 r1 + dot3 r2 r2 + dot3 r3 r3)"

definition velocity_of :: "constants \<Rightarrow> mat3 \<Rightarrow> vec3 \<Rightarrow> vec3" where
  "velocity_of K matrix d_energy =
     scale3 (A_to_m K * m_to_cm K * Ry_to_eV K / (hbar K * 0.52917721067))
       (abs3 (mat_vec (map33 (\<lambda>x. x / norm33 matrix) matrix) d_energy))"

definition effective_mass_of :: "constants \<Rightarrow> mat3 \<Rightarrow> mat3" where
  "effective_mass_of K dd_energy =
     map33 (\<lambda>x. elementary_charge K * 0.52917721067 ^ 2 * (hbar K) ^ 2 /
                 (x * m_e K * (A_to_m K) ^ 2 * Ry_to_eV K)) dd_energy"

text \<open>
  The list \<open>to_return\<close> of \<open>_get_energy_wrapper\<close>: the energy, then the velocity and the
  effective mass if asked for.
\<close>

record evaluation =
  energy :: real
  velocity :: "vec3 option"
  effective_mass :: "mat3 option"

text \<open>The body of \<open>_get_energy_wrapper\<close> for a 1-D coefficient array.\<close>

definition evaluate_band ::
  "constants \<Rightarrow> BoltzTraP1Parameters \<Rightarrow> mat3 \<Rightarrow> vec3 \<Rightarrow> bool \<Rightarrow> bool \<Rightarrow> real list
     \<Rightarrow> error + evaluation" where
  "evaluate_band K p matrix kpoint return_velocity return_effective_mass c =
     (case spwre p kpoint of Inl err \<Rightarrow> Inl err | Inr sp \<Rightarrow>
      (case dot_real sp c of Inl err \<Rightarrow> Inl err | Inr en \<Rightarrow>
      (case (if return_velocity
             then (case dspwre p kpoint of Inl err \<Rightarrow> Inl err | Inr dsp \<Rightarrow>
                   (case dot_vec dsp c of Inl err \<Rightarrow> Inl err
                    | Inr d_energy \<Rightarrow> Inr (Some (velocity_of K matrix d_energy))))
             else Inr None) of
         Inl err \<Rightarrow> Inl err
       | Inr vel \<Rightarrow>
      (case (if return_effective_mass
             then (case ddspwre p kpoint of Inl err \<Rightarrow> Inl err | Inr ddsp \<Rightarrow>
                   (case dot_mat ddsp c of Inl err \<Rightarrow> Inl err
                    | Inr dd_energy \<Rightarrow> Inr (Some (effective_mass_of K dd_energy))))
             else Inr None) of
         Inl err \<Rightarrow> Inl err
       | Inr mass \<Rightarrow>
           Inr \<lparr>energy = en * Ry_to_eV K, velocity = vel, effective_mass = mass\<rparr>))))"


text \<open>
  A result computed from a 1-D coefficient array, or from a 2-D block of coefficients
  (B, W): then every array of the result has one more axis of length W, kept here as
  the list of the results per column of the block.
\<close>

datatype 'a banded = Scalar 'a | PerColumn "'a list"

text \<open>
  \<open>_get_energy_wrapper\<close>. The first argument of the model is the entry of the global
  dictionary \<open>_parameters\<close> under \<open>parameters_id\<close>. A block of rows is the 1-D empty array
  when it has no row (\<open>np.array([])\<close>); a block (B, W) passes \<open>spwre.dot(coefficients)\<close>
  only if \<open>spwre\<close> has length B. Rows of unequal lengths do not make a numeric 2-D array:
  the model lets the dot product fail on them.
\<close>

definition ragged :: "'a list list \<Rightarrow> bool" where
  "ragged rows = (\<exists>r \<in> set rows. length r \<noteq> length (hd rows))"

definition get_energy_wrapper ::
  "constants \<Rightarrow> coeffs \<Rightarrow> BoltzTraP1Parameters option \<Rightarrow> mat3 \<Rightarrow> vec3 \<Rightarrow> bool \<Rightarrow> bool
     \<Rightarrow> error + evaluation banded" where
  "get_energy_wrapper K coefficients' entry matrix kpoint return_velocity return_effective_mass =
     (case entry of
        None \<Rightarrow> Inl KeyError
      | Some p \<Rightarrow>
          (case coefficients' of
             Band c \<Rightarrow>
               map_sum id Scalar
                 (evaluate_band K p matrix kpoint return_velocity return_effective_mass c)
           | Bands rows \<Rightarrow>
               if rows = [] then
                 map_sum id Scalar
                   (evaluate_band K p matrix kpoint return_velocity return_effective_mass [])
               else if ragged rows then Inl ShapeError
               else
                 (case spwre p kpoint of
                    Inl err \<Rightarrow> Inl err
                  | Inr sp \<Rightarrow>
                      if length sp \<noteq> length rows then Inl ShapeError
                      else
                        map_sum id PerColumn
                          (sequence
                             (map (evaluate_band K p matrix kpoint return_velocity
                                     return_effective_mass)
                                (transpose rows))))))"

section \<open>The interpolater object\<close>

text \<open>
  The fields of a \<open>BoltzTraP1Interpolater\<close> that the evaluation reads or writes, with
  the contents of the file at \<open>_coeff_file\<close> and the entry of the global dictionary
  \<open>_parameters\<close> under \<open>id(self)\<close>. \<open>parameters_id\<close> tells whether \<open>_parameters_id\<close> is set.
  Running BoltzTraP to produce a missing coefficient file is not modelled.

  The last field belongs to the process, not to the object: \<open>fork_start\<close> tells
  whether the worker processes of a pool start as copies of the calling process (the
  start method \<open>fork\<close>) or as new interpreters that import the module again (\<open>spawn\<close>).
  A worker looks the parameters up in the \<open>_parameters\<close> of its own process: a copy has
  the entries of the caller, a new interpreter has the empty dictionary of line 31.
\<close>

record interpolater =
  coeff_file :: coefficient_file
  n_jobs :: int
  lattice_matrix :: mat3
  parameters_id :: bool
  global_entry :: "BoltzTraP1Parameters option"
  fork_start :: bool

text \<open>\<open>initialize\<close> sets \<open>_parameters_id\<close> before it parses the file.\<close>

definition initialize :: "interpolater \<Rightarrow> (error + unit) \<times> interpolater" where
  "initialize self =
     (let self1 = self\<lparr>parameters_id := True\<rparr>
      in case get_interpolation_parameters (coeff_file self1) of
           Inl err \<Rightarrow> (Inl err, self1)
         | Inr p \<Rightarrow> (Inr (), self1\<lparr>global_entry := Some p\<rparr>))"

definition lookup :: "interpolater \<Rightarrow> (error + BoltzTraP1Parameters) \<times> interpolater" where
  "lookup self =
     (case global_entry self of None \<Rightarrow> (Inl KeyError, self) | Some p \<Rightarrow> (Inr p, self))"

text \<open>The property \<open>parameters\<close>.\<close>

definition parameters :: "interpolater \<Rightarrow> (error + BoltzTraP1Parameters) \<times> interpolater" where
  "parameters self =
     (if \<not> parameters_id self then
        (case initialize self of
           (Inl err, self') \<Rightarrow> (Inl err, self')
         | (Inr _, self') \<Rightarrow> lookup self')
      else lookup self)"

definition interpolation_coefficients ::
  "interpolater \<Rightarrow> band_request \<Rightarrow> (error + coeffs) \<times> interpolater" where
  "interpolation_coefficients self iband =
     (case parameters self of
        (Inl err, self') \<Rightarrow> (Inl err, self')
      | (Inr p, self') \<Rightarrow> (get_interpolation_coefficients p iband, self'))"

definition get_energy ::
  "constants \<Rightarrow> interpolater \<Rightarrow> vec3 \<Rightarrow> band_request \<Rightarrow> bool \<Rightarrow> bool
     \<Rightarrow> (error + evaluation banded) \<times> interpolater" where
  "get_energy K self kpoint iband return_velocity return_effective_mass =
     (case interpolation_coefficients self iband of
        (Inl err, self') \<Rightarrow> (Inl err, self')
      | (Inr c, self') \<Rightarrow>
          (get_energy_wrapper K c (global_entry self') (lattice_matrix self') kpoint
             return_velocity return_effective_mass, self'))"

subsection \<open>Bulk evaluation\<close>

text \<open>\<open>list(map(fun, kpoints))\<close>: in order, up to the first exception.\<close>

definition sequential_map :: "('a \<Rightarrow> error + 'b) \<Rightarrow> 'a list \<Rightarrow> error + 'b list" where
  "sequential_map f xs = sequence (map f xs)"

text \<open>
  \<open>multiprocessing.Pool(n).map(fun, kpoints)\<close> is library code, not part of the source
  given; the model follows the documented behaviour of \<open>Pool.map\<close>, which the spec
  repeats: an ordered map, not a first-come-first-served collect, over workers that
  complete in an order that the program does not control. The list \<open>choices\<close> picks, at every step,
  which of the pending tasks completes next (number \<open>c mod\<close> the number of pending
  tasks; 0 when the list is used up). The result of a task is stored at the index of its
  input; the first exception to arrive is the one that \<open>map\<close> raises. A pool of less
  than one process cannot be made.
\<close>

function pool_run ::
  "('a \<Rightarrow> error + 'b) \<Rightarrow> nat list \<Rightarrow> (nat \<times> 'a) list \<Rightarrow> 'b option list \<Rightarrow> error + 'b option list" where
  "pool_run f choices [] slots = Inr slots"
| "pool_run f choices (t # ts) slots =
     (let pending = t # ts;
          j = (case choices of [] \<Rightarrow> 0 | c # _ \<Rightarrow> c mod length pending);
          task = pending ! j
      in case f (snd task) of
           Inl err \<Rightarrow> Inl err
         | Inr y \<Rightarrow>
             pool_run f (tl choices) (take j pending @ drop (Suc j) pending)
               (slots[fst task := Some y]))"
  by pat_completeness auto
termination
  by (relation "measure (\<lambda>(f, choices, pending, slots). length pending)") (auto split: list.splits)

definition pool_map ::
  "int \<Rightarrow> nat list \<Rightarrow> ('a \<Rightarrow> error + 'b) \<Rightarrow> 'a list \<Rightarrow> error + 'b list" where
  "pool_map n choices f xs =
     (if n < 1 then Inl PoolSize
      else
        (case pool_run f choices (zip [0..<length xs] xs) (replicate (length xs) None) of
           Inl err \<Rightarrow> Inl err
         | Inr slots \<Rightarrow> Inr (map the slots)))"

text \<open>The list (or tuple of lists) that \<open>get_energies\<close> returns.\<close>

record bulk =
  energies :: "real banded list"
  velocities :: "vec3 option banded list option"
  effective_masses :: "mat3 option banded list option"

text \<open>
  \<open>get_energies\<close>. \<open>scissor\<close> and \<open>is_cb\<close> are \<open>None\<close> when the caller omits them
  (defaults \<open>0.0\<close> and \<open>None\<close>). With one job the wrapper runs in the calling process
  and reads its \<open>_parameters\<close>; otherwise it runs in the workers of the pool, which is
  made after the coefficients have been looked up (and so after \<open>initialize\<close>).
\<close>

definition get_energies ::
  "constants \<Rightarrow> nat list \<Rightarrow> interpolater \<Rightarrow> vec3 list \<Rightarrow> band_request \<Rightarrow> real option
     \<Rightarrow> bool option \<Rightarrow> bool \<Rightarrow> bool \<Rightarrow> (error + bulk) \<times> interpolater" where
  "get_energies K choices self kpoints iband scissor is_cb return_velocity return_effective_mass =
     (let sc = (case scissor of None \<Rightarrow> 0 | Some x \<Rightarrow> x)
      in if sc \<noteq> 0 \<and> is_cb = None
         then (Inl (MissingBandTypeForScissor ''To apply scissor set is_cb.''), self)
         else
           (let shift = (if is_cb = Some True then - 1 else 1) * sc / 2
            in case interpolation_coefficients self iband of
                 (Inl err, self') \<Rightarrow> (Inl err, self')
               | (Inr c, self') \<Rightarrow>
                   (let fun' = (\<lambda>entry kpoint. get_energy_wrapper K c entry
                                   (lattice_matrix self') kpoint True return_effective_mass);
                        worker_entry = (if fork_start self' then global_entry self' else None)
                    in case (if n_jobs self' = 1
                             then sequential_map (fun' (global_entry self')) kpoints
                             else pool_map (n_jobs self') choices (fun' worker_entry) kpoints) of
                         Inl err \<Rightarrow> (Inl err, self')
                       | Inr results \<Rightarrow>
                           (Inr \<lparr>energies =
                                   map (map_banded (\<lambda>r. energy r - shift)) results,
                                 velocities =
                                   (if return_velocity
                                    then Some (map (map_banded velocity) results) else None),
                                 effective_masses =
                                   (if return_effective_mass
                                    then Some (map (map_banded effective_mass) results)
                                    else None)\<rparr>, self'))))"

section \<open>Auxiliary notions for the proofs\<close>

text \<open>The error a computation ends with, if any; the length of the array it returns.\<close>

definition outcome :: "error + 'a \<Rightarrow> error option" where
  "outcome r = (case r of Inl e \<Rightarrow> Some e | Inr _ \<Rightarrow> None)"




fun is_scissor_error :: "error \<Rightarrow> bool" where
  "is_scissor_error (MissingBandTypeForScissor _) = True"
| "is_scissor_error _ = False"

definition scissor_value :: "real option \<Rightarrow> real" where
  "scissor_value scissor = (case scissor of None \<Rightarrow> 0 | Some x \<Rightarrow> x)"

text \<open>
  The entry of \<open>_parameters\<close> that the process evaluating the k-points of a bulk
  evaluation finds: the calling process itself, or a worker of the pool.
\<close>

definition worker_entry :: "interpolater \<Rightarrow> BoltzTraP1Parameters option" where
  "worker_entry s = (if n_jobs s = 1 \<or> fork_start s then global_entry s else None)"

text \<open>Concrete inputs on which the theorems below are instantiated.\<close>

definition identity33 :: mat3 where
  "identity33 = ((1, 0, 0), (0, 1, 0), (0, 0, 1))"

text \<open>
  A line of integers \<open>xs\<close>, and a line with the one number \<open>1 / d\<close> written as a
  decimal fraction below 1 (\<open>0.5\<close>, \<open>0.25\<close>), of which \<open>dtype=int\<close> reads the \<open>0\<close>.
\<close>

definition ln :: "int list \<Rightarrow> line" where
  "ln xs = \<lparr>as_float = map real_of_int xs, as_int = xs\<rparr>"

definition fraction_line :: "real \<Rightarrow> line" where
  "fraction_line x = \<lparr>as_float = [x], as_int = [0]\<rparr>"

text \<open>
  A coefficient file with one G-vector (1, 0, 0), the identity as its only symmetry
  operation, the unit cell matrix, and band 1 with the coefficient 1/2; and the
  parameters it parses to.
\<close>

definition one_band_file :: coefficient_file where
  "one_band_file =
     \<lparr>header = [None, Some 1, Some 1, None],
      body = [ln [1, 0, 0, 0, 1, 0, 0, 0, 1],
              ln ([1, 0, 0, 0, 1, 0, 0, 0, 1] @ replicate 1719 0),
              ln [1, 0, 0],
              ln [1, 1],
              fraction_line (1 / 2)],
      unwritten = (\<lambda>r k. 0)\<rparr>"

definition one_band_parameters :: BoltzTraP1Parameters where
  "one_band_parameters =
     \<lparr>num_symmetries = 1, coefficients = [[1 / 2]], min_band = 1, max_band = 1,
      allowed_ibands = {1..1}, num_star_vectors = [1], star_vectors = [[(1, 0, 0)]],
      star_vector_products = [[(1, 0, 0)]],
      star_vector_products_sq = [[((1, 0, 0), (0, 0, 0), (0, 0, 0))]]\<rparr>"

definition unit_constants :: constants where
  "unit_constants =
     \<lparr>Ry_to_eV = 1, hbar = 1, A_to_m = 1, m_to_cm = 1, m_e = 1, elementary_charge = 1\<rparr>"

definition fresh_interpolater :: "coefficient_file \<Rightarrow> int \<Rightarrow> interpolater" where
  "fresh_interpolater f n =
     \<lparr>coeff_file = f, n_jobs = n, lattice_matrix = identity33,
      parameters_id = False, global_entry = None, fork_start = True\<rparr>"

text \<open>Vectors without a negative component; constants that are positive, as the physical ones are.\<close>

fun nonneg3 :: "vec3 \<Rightarrow> bool" where
  "nonneg3 (x, y, z) = (0 \<le> x \<and> 0 \<le> y \<and> 0 \<le> z)"

definition positive_constants :: "constants \<Rightarrow> bool" where
  "positive_constants K = (0 < Ry_to_eV K \<and> 0 < hbar K \<and> 0 < A_to_m K \<and> 0 < m_to_cm K)"

text \<open>
  The band indices a request names, and the list \<open>iband\<close> that
  \<open>_get_interpolation_coefficients\<close> works with after its first two statements; the
  invariant that the allowed bands are \<open>[min_band, max_band]\<close> with one coefficient row
  for each.
\<close>

fun requested :: "band_request \<Rightarrow> int list" where
  "requested (Index b) = [b]"
| "requested (Indices bs) = bs"
| "requested NoBand = []"

definition selected_ibands :: "BoltzTraP1Parameters \<Rightarrow> band_request \<Rightarrow> int list" where
  "selected_ibands p req =
     (if requested req = [] then sorted_list_of_set (allowed_ibands p) else requested req)"

definition band_rows :: "BoltzTraP1Parameters \<Rightarrow> bool" where
  "band_rows p \<longleftrightarrow>
     allowed_ibands p = {min_band p..max_band p} \<and>
     length (coefficients p) = nat (max_band p - min_band p + 1)"

text \<open>As \<open>one_band_file\<close>, with the bands 1 and 2.\<close>

definition two_band_file :: coefficient_file where
  "two_band_file =
     \<lparr>header = [None, Some 1, Some 1, None],
      body = [ln [1, 0, 0, 0, 1, 0, 0, 0, 1],
              ln ([1, 0, 0, 0, 1, 0, 0, 0, 1] @ replicate 1719 0),
              ln [1, 0, 0],
              ln [1, 2],
              fraction_line (1 / 2),
              fraction_line (1 / 4)],
      unwritten = (\<lambda>r k. 0)\<rparr>"

definition two_band_parameters :: BoltzTraP1Parameters where
  "two_band_parameters =
     \<lparr>num_symmetries = 1, coefficients = [[1 / 2], [1 / 4]], min_band = 1, max_band = 2,
      allowed_ibands = {1..2}, num_star_vectors = [1], star_vectors = [[(1, 0, 0)]],
      star_vector_products = [[(1, 0, 0)]],
      star_vector_products_sq = [[((1, 0, 0), (0, 0, 0), (0, 0, 0))]]\<rparr>"

text \<open>The range of int64.\<close>

definition in_int64 :: "int \<Rightarrow> bool" where
  "in_int64 x \<longleftrightarrow> - (2 ^ 63) \<le> x \<and> x < 2 ^ 63"

text \<open>
  The coefficients of the bands \<open>sel\<close>, each taken at its index minus \<open>min_band\<close>: one
  row when one band is selected, a block of rows otherwise.
\<close>

definition band_block :: "BoltzTraP1Parameters \<Rightarrow> int list \<Rightarrow> coeffs" where
  "band_block p sel =
     (if length sel = 1 then Band (coefficients p ! nat (hd sel - min_band p))
      else Bands (map (\<lambda>b. coefficients p ! nat (b - min_band p)) sel))"

text \<open>
  As \<open>one_band_file\<close>, but announcing the bands 1 to 3 and ending after the coefficient
  line of band 1.
\<close>

definition short_band_file :: coefficient_file where
  "short_band_file =
     \<lparr>header = [None, Some 1, Some 1, None],
      body = [ln [1, 0, 0, 0, 1, 0, 0, 0, 1],
              ln ([1, 0, 0, 0, 1, 0, 0, 0, 1] @ replicate 1719 0),
              ln [1, 0, 0],
              ln [1, 3],
              fraction_line (1 / 2)],
      unwritten = (\<lambda>r k. 0)\<rparr>"

definition short_band_parameters :: BoltzTraP1Parameters where
  "short_band_parameters =
     \<lparr>num_symmetries = 1, coefficients = [[1 / 2]], min_band = 1, max_band = 3,
      allowed_ibands = {1..3}, num_star_vectors = [1], star_vectors = [[(1, 0, 0)]],
      star_vector_products = [[(1, 0, 0)]],
      star_vector_products_sq = [[((1, 0, 0), (0, 0, 0), (0, 0, 0))]]\<rparr>"

text \<open>
  The formulas of the spec for the evaluator, written as the spec gives them: the phase of
  star slot \<open>i\<close> of G-vector \<open>g\<close>, the symmetrised basis function \<open>S[g]\<close>, and the energy.
  The theorems below compare them with the evaluator of the source.
\<close>

definition phase_spec :: "BoltzTraP1Parameters \<Rightarrow> vec3 \<Rightarrow> nat \<Rightarrow> nat \<Rightarrow> real" where
  "phase_spec p kpoint g i = 2 * pi * dot3 (star_vectors p ! g ! i) kpoint"

definition S_spec :: "BoltzTraP1Parameters \<Rightarrow> vec3 \<Rightarrow> nat \<Rightarrow> real" where
  "S_spec p kpoint g =
     ((\<Sum>i<length (star_vectors p ! g). cos (phase_spec p kpoint g i)) -
      (real_of_int (num_symmetries p) - real (num_star_vectors p ! g))) /
     real (num_star_vectors p ! g)"

definition energy_spec :: "constants \<Rightarrow> BoltzTraP1Parameters \<Rightarrow> vec3 \<Rightarrow> real list \<Rightarrow> real" where
  "energy_spec K p kpoint c =
     (\<Sum>g<length (star_vectors p). S_spec p kpoint g * c ! g) * Ry_to_eV K"

section \<open>Sequencing, the sequential map and the pool\<close>

lemma sequence_map_total: "sequence (map (\<lambda>x. Inr (g x)) xs) = Inr (map g xs)"
  by (induction xs) auto

lemma sequence_map_Inr: "sequence (map Inr ys) = Inr ys"
  by (induction ys) auto

lemma sequence_Inr_D: "sequence xs = Inr ys \<Longrightarrow> xs = map Inr ys"
  by (induction xs arbitrary: ys) (auto split: sum.splits)

lemma sequence_Inr_iff: "sequence xs = Inr ys \<longleftrightarrow> xs = map Inr ys"
  using sequence_Inr_D sequence_map_Inr by blast

lemma sequence_Inl_mem: "sequence xs = Inl e \<Longrightarrow> Inl e \<in> set xs"
  by (induction xs) (auto split: sum.splits)

lemma sequential_map_Inr:
  "sequential_map f xs = Inr ys \<Longrightarrow> length ys = length xs \<and> (\<forall>i<length xs. f (xs ! i) = Inr (ys ! i))"
  unfolding sequential_map_def sequence_Inr_iff
  by (metis length_map nth_map)

lemma sequential_map_all_Inr:
  "\<forall>x\<in>set xs. f x = Inr (g x) \<Longrightarrow> sequential_map f xs = Inr (map g xs)"
  unfolding sequential_map_def sequence_Inr_iff by simp

lemma pool_run_Inr:
  "pool_run f choices pending slots = Inr slots' \<Longrightarrow> distinct (map fst pending) \<Longrightarrow>
   \<forall>(i, x)\<in>set pending. i < length slots \<Longrightarrow>
   length slots' = length slots \<and>
   (\<forall>(i, x)\<in>set pending. \<exists>y. f x = Inr y \<and> slots' ! i = Some y) \<and>
   (\<forall>i. i \<notin> fst ` set pending \<longrightarrow> slots' ! i = slots ! i)"
proof (induction f choices pending slots rule: pool_run.induct)
  case (1 f choices slots)
  then show ?case by simp
next
  case (2 f choices t ts slots)
  define pending where "pending = t # ts"
  define j where "j = (case choices of [] \<Rightarrow> 0 | c # _ \<Rightarrow> c mod length pending)"
  define task where "task = pending ! j"
  define rest where "rest = take j pending @ drop (Suc j) pending"
  have jlt: "j < length pending"
    by (auto simp: j_def pending_def split: list.splits)
  have step: "pool_run f choices (t # ts) slots =
      (case f (snd task) of Inl err \<Rightarrow> Inl err
       | Inr y \<Rightarrow> pool_run f (tl choices) rest (slots[fst task := Some y]))"
    unfolding rest_def task_def j_def pending_def by (simp add: Let_def)
  obtain y where y: "f (snd task) = Inr y"
    and run: "pool_run f (tl choices) rest (slots[fst task := Some y]) = Inr slots'"
    using "2.prems"(1) unfolding step by (auto split: sum.splits)
  have pend: "pending = take j pending @ task # drop (Suc j) pending"
    using jlt by (simp add: task_def id_take_nth_drop)
  have dist: "distinct (map fst pending)" using "2.prems"(2) by (simp add: pending_def)
  have setp: "set pending = insert task (set rest)"
    by (subst pend) (auto simp: rest_def)
  have dist': "distinct (map fst rest) \<and> fst task \<notin> fst ` set rest"
    using dist by (subst (asm) pend) (auto simp: rest_def)
  have bound: "\<forall>(i, x)\<in>set pending. i < length slots" using "2.prems"(3) by (simp add: pending_def)
  have IH: "length slots' = length (slots[fst task := Some y]) \<and>
   (\<forall>(i, x)\<in>set rest. \<exists>y'. f x = Inr y' \<and> slots' ! i = Some y') \<and>
   (\<forall>i. i \<notin> fst ` set rest \<longrightarrow> slots' ! i = (slots[fst task := Some y]) ! i)"
    unfolding rest_def
    apply (rule "2.IH"[OF pending_def j_def task_def y])
    using run dist' bound setp by (auto simp: rest_def)
  have tl: "fst task < length slots" using bound setp by auto
  have "slots' ! fst task = Some y" using IH dist' tl by simp
  then show ?case
    using IH y setp unfolding pending_def[symmetric]
    by (auto simp: rev_image_eqI)
qed

lemma pool_run_Inl:
  "pool_run f choices pending slots = Inl e \<Longrightarrow> \<exists>t\<in>set pending. f (snd t) = Inl e"
proof (induction f choices pending slots rule: pool_run.induct)
  case (1 f choices slots)
  then show ?case by simp
next
  case (2 f choices t ts slots)
  define pending where "pending = t # ts"
  define j where "j = (case choices of [] \<Rightarrow> 0 | c # _ \<Rightarrow> c mod length pending)"
  define task where "task = pending ! j"
  define rest where "rest = take j pending @ drop (Suc j) pending"
  have jlt: "j < length pending"
    by (auto simp: j_def pending_def split: list.splits)
  have mem: "task \<in> set pending" using jlt by (simp add: task_def)
  have sub: "set rest \<subseteq> set pending"
    by (auto simp: rest_def dest: in_set_takeD in_set_dropD)
  have step: "pool_run f choices (t # ts) slots =
      (case f (snd task) of Inl err \<Rightarrow> Inl err
       | Inr y \<Rightarrow> pool_run f (tl choices) rest (slots[fst task := Some y]))"
    unfolding rest_def task_def j_def pending_def by (simp add: Let_def)
  show ?case
  proof (cases "f (snd task)")
    case (Inl e')
    then have "e' = e" using "2.prems" unfolding step by simp
    then show ?thesis using Inl mem unfolding pending_def by blast
  next
    case (Inr y)
    then have "pool_run f (tl choices) rest (slots[fst task := Some y]) = Inl e"
      using "2.prems" unfolding step by simp
    from "2.IH"[OF pending_def j_def task_def Inr this[unfolded rest_def]]
    show ?thesis using sub unfolding pending_def rest_def by blast
  qed
qed

lemma outcome_simps [simp]: "outcome (Inl e) = Some e" "outcome (Inr y) = None"
  by (simp_all add: outcome_def)



lemma outcome_map_sum [simp]: "outcome (map_sum id g r) = outcome r"
  by (cases r) auto

lemma sequence_length: "sequence xs = Inr ys \<Longrightarrow> length ys = length xs"
  by (auto dest: sequence_Inr_D)


lemma pool_map_Inr:
  assumes "pool_map n ch f xs = Inr ys"
  shows "length ys = length xs \<and> (\<forall>i<length xs. f (xs ! i) = Inr (ys ! i))"
proof -
  let ?pending = "zip [0..<length xs] xs"
  obtain slots where run: "pool_run f ch ?pending (replicate (length xs) None) = Inr slots"
    and ys: "ys = map the slots"
    using assms by (auto simp: pool_map_def split: if_splits sum.splits)
  have d: "distinct (map fst ?pending)" by simp
  have "\<forall>(i, x)\<in>set ?pending. i < length xs" by (auto dest: set_zip_leftD)
  then have r: "length slots = length xs \<and>
      (\<forall>(i, x)\<in>set ?pending. \<exists>y. f x = Inr y \<and> slots ! i = Some y)"
    using pool_run_Inr[OF run d] by simp
  then have len: "length slots = length xs"
    and all: "\<forall>(i, x)\<in>set ?pending. \<exists>y. f x = Inr y \<and> slots ! i = Some y"
    by blast+
  have "f (xs ! i) = Inr (ys ! i)" if "i < length xs" for i
  proof -
    have "(i, xs ! i) \<in> set ?pending"
      using that by (simp add: set_zip) (rule exI[of _ i], simp)
    with all obtain y where "f (xs ! i) = Inr y" "slots ! i = Some y" by auto
    then show ?thesis using that len by (simp add: ys)
  qed
  then show ?thesis using len by (simp add: ys)
qed

lemma pool_map_Inl:
  assumes "pool_map n ch f xs = Inl e"
  shows "(n < 1 \<and> e = PoolSize) \<or> (\<exists>x\<in>set xs. f x = Inl e)"
proof (cases "n < 1")
  case True
  then show ?thesis using assms by (simp add: pool_map_def)
next
  case False
  then have "pool_run f ch (zip [0..<length xs] xs) (replicate (length xs) None) = Inl e"
    using assms by (auto simp: pool_map_def split: sum.splits)
  from pool_run_Inl[OF this] show ?thesis by (auto dest: set_zip_rightD)
qed

lemma sequential_map_Inl:
  assumes "sequential_map f xs = Inl e"
  shows "\<exists>x\<in>set xs. f x = Inl e"
proof -
  have "Inl e \<in> set (map f xs)"
    using assms unfolding sequential_map_def by (rule sequence_Inl_mem)
  then obtain x where "x \<in> set xs" "Inl e = f x" by auto
  then show ?thesis by (intro bexI[of _ x]) simp_all
qed

lemma pool_map_eq_sequential_map:
  assumes n: "1 \<le> n" and u: "\<And>x y e. f x = Inl e \<Longrightarrow> f y = Inl e"
  shows "pool_map n ch f xs = sequential_map f xs"
proof (cases "\<exists>x\<in>set xs. \<exists>e. f x = Inl e")
  case True
  then obtain x0 e where x0: "x0 \<in> set xs" "f x0 = Inl e" by blast
  then have all: "\<And>y. f y = Inl e" using u by blast
  have "pool_map n ch f xs = Inl e"
  proof (cases "pool_map n ch f xs")
    case (Inl e')
    from pool_map_Inl[OF this] n all show ?thesis using Inl by auto
  next
    case (Inr ys)
    from pool_map_Inr[OF this] x0 all show ?thesis by (auto simp: in_set_conv_nth)
  qed
  moreover have "sequential_map f xs = Inl e"
  proof (cases "sequential_map f xs")
    case (Inl e')
    from sequential_map_Inl[OF this] all show ?thesis using Inl by auto
  next
    case (Inr ys)
    from sequential_map_Inr[OF this] x0 all show ?thesis by (auto simp: in_set_conv_nth)
  qed
  ultimately show ?thesis by simp
next
  case False
  then have ok: "\<And>x. x \<in> set xs \<Longrightarrow> \<exists>y. f x = Inr y"
    by (metis sum.exhaust)
  obtain ys where p: "pool_map n ch f xs = Inr ys"
    using pool_map_Inl[of n ch f xs] n False by (cases "pool_map n ch f xs") auto
  obtain zs where s: "sequential_map f xs = Inr zs"
    using sequential_map_Inl[of f xs] False by (cases "sequential_map f xs") auto
  have "ys = zs"
    using pool_map_Inr[OF p] sequential_map_Inr[OF s]
    by (intro nth_equalityI) auto
  then show ?thesis using p s by simp
qed

lemma broadcast2_length:
  "broadcast2 f xs ys = Inr zs \<Longrightarrow>
   length zs = (if length xs = length ys then length xs
                else if length xs = 1 then length ys else length xs)"
  by (auto simp: broadcast2_def dest!: sequence_length split: if_splits)


lemma sequence_map2_total:
  "sequence (map2 (\<lambda>a b. Inr (g a b)) xs ys) = Inr (map2 g xs ys)"
  by (simp add: sequence_Inr_iff case_prod_unfold)








lemma arg_length [simp]: "length (arg p k) = length (star_vectors p)"
  by (simp add: arg_def)

lemma arg_row_length [simp]:
  "i < length (star_vectors p) \<Longrightarrow> length (arg p k ! i) = length (star_vectors p ! i)"
  by (simp add: arg_def)











lemma broadcast2_Inl:
  assumes "broadcast2 f xs ys = Inl e"
  shows "e = ShapeError \<or> (\<exists>x y. f x y = Inl e)"
proof -
  have *: "\<exists>x y. f x y = Inl e" if "Inl e \<in> set (map (\<lambda>(x, y). f x y) zs)" for zs
    using that by (auto simp: image_iff) metis
  have **: "\<exists>x y. f x y = Inl e" if "Inl e \<in> set (map g zs)" "\<And>z. \<exists>x y. g z = f x y" for g zs
    using that by (auto simp: image_iff) metis
  show ?thesis
    using assms
    apply (simp add: broadcast2_def split: if_splits)
      apply (drule sequence_Inl_mem, drule *, simp)
     apply (drule sequence_Inl_mem, drule **, blast, simp)
    apply (drule sequence_Inl_mem, drule **, blast, simp)
    done
qed

lemma spwre_Inl: "spwre p k = Inl e \<Longrightarrow> e = ShapeError"
  unfolding spwre_def by (drule broadcast2_Inl) auto

lemma dspwre_Inl: "dspwre p k = Inl e \<Longrightarrow> e = ShapeError"
  unfolding dspwre_def
  by (auto split: sum.splits dest!: broadcast2_Inl)

lemma ddspwre_Inl: "ddspwre p k = Inl e \<Longrightarrow> e = ShapeError"
  unfolding ddspwre_def
  by (auto split: sum.splits dest!: broadcast2_Inl)

lemma evaluate_band_Inl: "evaluate_band K p m k rv rm c = Inl e \<Longrightarrow> e = ShapeError"
  unfolding evaluate_band_def dot_real_def dot_vec_def dot_mat_def
  by (auto split: sum.splits if_splits dest: spwre_Inl dspwre_Inl ddspwre_Inl)

lemma map_sum_id_Inl [simp]: "map_sum id g r = Inl e \<longleftrightarrow> r = Inl e"
  by (cases r) auto

lemma map_sum_id_Inr: "map_sum id g r = Inr y \<longleftrightarrow> (\<exists>x. r = Inr x \<and> y = g x)"
  by (cases r) auto

lemma sequence_map_Inl: "sequence (map f xs) = Inl e \<Longrightarrow> \<exists>x\<in>set xs. f x = Inl e"
  using sequential_map_Inl[of f xs e] by (simp add: sequential_map_def)

lemma get_energy_wrapper_Inl:
  "get_energy_wrapper K c entry m k rv rm = Inl e \<Longrightarrow> e = ShapeError \<or> e = KeyError"
  unfolding get_energy_wrapper_def
  by (auto split: option.splits coeffs.splits if_splits sum.splits
      dest: evaluate_band_Inl spwre_Inl dest!: sequence_map_Inl)

lemma row_of_Inl: "row_of xs = Inl e \<Longrightarrow> e = RowAssign"
  by (auto simp: row_of_def split: list.splits)

lemma read_lines_Inl:
  "read_lines n i ls vars = Inl e \<Longrightarrow> e = RowAssign \<or> e = BandUnpack"
proof (induction n i ls vars rule: read_lines.induct)
  case (1 n i vars)
  then show ?case by simp
next
  case (2 n i l ls gs cs ib lo hi)
  show ?case
  proof (cases "i < n")
    case True
    then show ?thesis using 2
      by (auto split: sum.splits dest: row_of_Inl)
  next
    case False
    note nlt = this
    show ?thesis
    proof (cases "i = n")
      case True
      then show ?thesis using "2.IH"(2) "2.prems"
        by (auto simp: Let_def split: list.splits)
    next
      case False
      then show ?thesis using nlt "2.IH"(3,4) "2.prems"
        by (auto simp: Let_def split: if_splits)
    qed
  qed
qed

lemma zeros_check_Some:
  "zeros_check dims = Some e \<Longrightarrow> e = NegativeDimension \<or> e = ArrayTooBig"
  by (auto simp: zeros_check_def split: if_splits)

lemma star_parameters_Inl:
  "star_parameters nsym cell ops gs cs lo hi = Inl e \<Longrightarrow>
   e = NegativeDimension \<or> e = ArrayTooBig \<or> e = EmptyMax"
  unfolding star_parameters_def
  by (auto simp: Let_def split: option.splits if_splits dest: zeros_check_Some)

lemma get_interpolation_parameters_Inl:
  "get_interpolation_parameters f = Inl e \<Longrightarrow> \<not> is_scissor_error e"
  unfolding get_interpolation_parameters_def
  by (auto simp: Let_def split: list.splits option.splits prod.splits sum.splits if_splits
      dest: read_lines_Inl zeros_check_Some star_parameters_Inl)

lemma sequence_Inl_cases: "sequence xs = Inl e \<Longrightarrow> \<exists>x\<in>set xs. x = Inl e"
  by (auto dest: sequence_Inl_mem)

lemma index_one_Inl: "index_one xs i = Inl e \<Longrightarrow> e = IndexError"
  by (auto simp: index_one_def Let_def split: if_splits)

lemma get_interpolation_coefficients_Inl:
  "get_interpolation_coefficients p req = Inl e \<Longrightarrow> \<not> is_scissor_error e"
  unfolding get_interpolation_coefficients_def fancy_index_def
  by (auto simp: Let_def split: if_splits sum.splits dest!: sequence_map_Inl index_one_Inl)

lemma parameters_Inl: "parameters self = (Inl e, self') \<Longrightarrow> \<not> is_scissor_error e"
  unfolding parameters_def initialize_def lookup_def
  by (auto simp: Let_def split: if_splits sum.splits option.splits prod.splits
      dest: get_interpolation_parameters_Inl)

lemma interpolation_coefficients_Inl:
  "interpolation_coefficients self ib = (Inl e, self') \<Longrightarrow> \<not> is_scissor_error e"
  unfolding interpolation_coefficients_def
  by (auto split: prod.splits sum.splits dest: parameters_Inl get_interpolation_coefficients_Inl)

lemma bulk_map_Inl:
  assumes "(if n = 1 then sequential_map f ks else pool_map n ch f ks) = Inl e"
    and "\<And>k e. f k = Inl e \<Longrightarrow> \<not> is_scissor_error e"
  shows "\<not> is_scissor_error e"
proof (cases "n = 1")
  case True
  then show ?thesis using assms sequential_map_Inl[of f ks e] by auto
next
  case False
  then show ?thesis using assms pool_map_Inl[of n ch f ks e] by auto
qed

lemma get_energies_unfold:
  "get_energies K ch self ks ib scissor is_cb rv rm =
     (if scissor_value scissor \<noteq> 0 \<and> is_cb = None
      then (Inl (MissingBandTypeForScissor ''To apply scissor set is_cb.''), self)
      else
        (case interpolation_coefficients self ib of
           (Inl err, self') \<Rightarrow> (Inl err, self')
         | (Inr c, self') \<Rightarrow>
             (case (if n_jobs self' = 1
                    then sequential_map (\<lambda>k. get_energy_wrapper K c (worker_entry self')
                           (lattice_matrix self') k True rm) ks
                    else pool_map (n_jobs self') ch (\<lambda>k. get_energy_wrapper K c
                           (worker_entry self') (lattice_matrix self') k True rm) ks) of
                Inl err \<Rightarrow> (Inl err, self')
              | Inr results \<Rightarrow>
                  (Inr \<lparr>energies = map (map_banded (\<lambda>r. energy r -
                           (if is_cb = Some True then - 1 else 1) * scissor_value scissor / 2))
                           results,
                        velocities = (if rv then Some (map (map_banded velocity) results)
                                      else None),
                        effective_masses =
                          (if rm then Some (map (map_banded effective_mass) results)
                           else None)\<rparr>, self'))))"
  unfolding get_energies_def worker_entry_def scissor_value_def Let_def
  by (simp split: prod.splits sum.splits)

lemma get_energies_scissor_error:
  assumes "scissor_value scissor \<noteq> 0" "is_cb = None"
  shows "get_energies K ch self ks ib scissor is_cb rv rm =
         (Inl (MissingBandTypeForScissor ''To apply scissor set is_cb.''), self)"
  using assms by (simp add: get_energies_unfold)

lemma get_energies_other_error:
  assumes "\<not> (scissor_value scissor \<noteq> 0 \<and> is_cb = None)"
    and "get_energies K ch self ks ib scissor is_cb rv rm = (Inl e, self')"
  shows "\<not> is_scissor_error e"
proof -
  note ns = assms(1)
  show ?thesis
  proof (cases "interpolation_coefficients self ib")
    case (Pair r s1)
    show ?thesis
    proof (cases r)
      case (Inl e')
      then have "e = e'" using assms(2) ns Pair by (auto simp: get_energies_unfold)
      then show ?thesis using interpolation_coefficients_Inl Pair Inl by blast
    next
      case (Inr c)
      let ?f = "\<lambda>kpoint. get_energy_wrapper K c (worker_entry s1) (lattice_matrix s1) kpoint True rm"
      have "(if n_jobs s1 = 1 then sequential_map ?f ks else pool_map (n_jobs s1) ch ?f ks) = Inl e"
        using assms(2) ns Pair Inr
        by (auto simp: get_energies_unfold split: sum.splits if_splits)
      then show ?thesis
        by (rule bulk_map_Inl) (auto dest: get_energy_wrapper_Inl)
    qed
  qed
qed

section \<open>The scissor check of get_energies\<close>

text \<open>
  Claim C6. \<open>get_energies\<close> fails with the error "To apply scissor set is_cb." if and
  only if the scissor is not 0 and \<open>is_cb\<close> is not given. In that case it fails at once:
  the interpolater is returned as it was (no file parsed, no entry made in the global
  dictionary, no k-point evaluated), whatever the k-points and the band request are.
\<close>

theorem missing_band_type_for_scissor:
  "((\<exists>msg. fst (get_energies K choices self kpoints iband scissor is_cb rv rm) =
             Inl (MissingBandTypeForScissor msg))
      \<longleftrightarrow> (scissor_value scissor \<noteq> 0 \<and> is_cb = None))
   \<and> (scissor_value scissor \<noteq> 0 \<and> is_cb = None \<longrightarrow>
        get_energies K choices self kpoints iband scissor is_cb rv rm =
          (Inl (MissingBandTypeForScissor ''To apply scissor set is_cb.''), self))"
proof (cases "scissor_value scissor \<noteq> 0 \<and> is_cb = None")
  case True
  then show ?thesis
    using get_energies_scissor_error[of scissor is_cb K choices self kpoints iband rv rm]
    by simp
next
  case False
  have "fst (get_energies K choices self kpoints iband scissor is_cb rv rm) \<noteq>
        Inl (MissingBandTypeForScissor msg)" for msg
  proof
    assume a: "fst (get_energies K choices self kpoints iband scissor is_cb rv rm) =
        Inl (MissingBandTypeForScissor msg)"
    obtain self' where "get_energies K choices self kpoints iband scissor is_cb rv rm =
        (Inl (MissingBandTypeForScissor msg), self')"
      using a by (cases "get_energies K choices self kpoints iband scissor is_cb rv rm") auto
    from get_energies_other_error[OF False this] show False by simp
  qed
  then show ?thesis using False by blast
qed

theorem missing_band_type_for_scissor_witness:
  "get_energies unit_constants [] (fresh_interpolater \<lparr>header = [], body = [], unwritten = (\<lambda>r k. 0)\<rparr> 1)
     [(0, 0, 0)] (Index 1) (Some 1) None False False =
   (Inl (MissingBandTypeForScissor ''To apply scissor set is_cb.''),
    fresh_interpolater \<lparr>header = [], body = [], unwritten = (\<lambda>r k. 0)\<rparr> 1)"
  using missing_band_type_for_scissor[of unit_constants "[]"
      "fresh_interpolater \<lparr>header = [], body = [], unwritten = (\<lambda>r k. 0)\<rparr> 1" "[(0, 0, 0)]" "Index 1" "Some 1" None
      False False]
  by (simp add: scissor_value_def)

section \<open>Results of the evaluator and of the bulk evaluation\<close>

lemma evaluate_band_weaken:
  assumes "evaluate_band K p m k rv rm c = Inr r" "rv' \<longrightarrow> rv" "rm' \<longrightarrow> rm"
  shows "\<exists>r'. evaluate_band K p m k rv' rm' c = Inr r' \<and> energy r' = energy r \<and>
              (rv' \<longrightarrow> velocity r' = velocity r) \<and>
              (rm' \<longrightarrow> effective_mass r' = effective_mass r)"
  using assms unfolding evaluate_band_def
  by (cases rv; cases rm; cases rv'; cases rm') (auto split: sum.splits)

lemma sequence_map_weaken:
  assumes "sequence (map f xs) = Inr rs"
    and "\<And>x r. f x = Inr r \<Longrightarrow> \<exists>r'. g x = Inr r' \<and> P r r'"
  shows "\<exists>rs'. sequence (map g xs) = Inr rs' \<and> list_all2 P rs rs'"
  using assms(1)
proof (induction xs arbitrary: rs)
  case Nil
  then show ?case by simp
next
  case (Cons x xs)
  then obtain r rs0 where r: "f x = Inr r" "sequence (map f xs) = Inr rs0" "rs = r # rs0"
    by (auto split: sum.splits)
  from assms(2)[OF r(1)] obtain r' where "g x = Inr r'" "P r r'" by blast
  moreover from Cons.IH[OF r(2)] obtain rs' where "sequence (map g xs) = Inr rs'"
    "list_all2 P rs0 rs'" by blast
  ultimately show ?case using r(3) by simp
qed

lemma map_banded_cong_list:
  "list_all2 (\<lambda>a b. f a = g b) xs ys \<Longrightarrow> map f xs = map g ys"
  by (induction rule: list_all2_induct) auto

lemma get_energy_wrapper_weaken:
  assumes "get_energy_wrapper K c entry m k rv rm = Inr r" "rv' \<longrightarrow> rv" "rm' \<longrightarrow> rm"
  shows "\<exists>r'. get_energy_wrapper K c entry m k rv' rm' = Inr r' \<and>
            map_banded energy r' = map_banded energy r \<and>
            (rv' \<longrightarrow> map_banded velocity r' = map_banded velocity r) \<and>
            (rm' \<longrightarrow> map_banded effective_mass r' = map_banded effective_mass r)"
proof -
  let ?P = "\<lambda>r r'. energy r' = energy r \<and> (rv' \<longrightarrow> velocity r' = velocity r) \<and>
              (rm' \<longrightarrow> effective_mass r' = effective_mass r)"
  obtain p where p: "entry = Some p"
    using assms(1) by (cases entry) (auto simp: get_energy_wrapper_def)
  have one: "\<exists>r'. evaluate_band K p m k rv' rm' v = Inr r' \<and> ?P r r'"
    if "evaluate_band K p m k rv rm v = Inr r" for v r
    using evaluate_band_weaken[OF that assms(2,3)] by blast
  show ?thesis
  proof (cases c)
    case (Band v)
    then obtain r0 where r0: "evaluate_band K p m k rv rm v = Inr r0" "r = Scalar r0"
      using assms(1) p by (auto simp: get_energy_wrapper_def map_sum_id_Inr)
    from one[OF r0(1)] obtain r' where "evaluate_band K p m k rv' rm' v = Inr r'" "?P r0 r'"
      by blast
    then show ?thesis using Band p r0(2) by (simp add: get_energy_wrapper_def)
  next
    case (Bands rows)
    show ?thesis
    proof (cases "rows = []")
      case True
      then obtain r0 where r0: "evaluate_band K p m k rv rm [] = Inr r0" "r = Scalar r0"
        using assms(1) p Bands by (auto simp: get_energy_wrapper_def map_sum_id_Inr)
      from one[OF r0(1)] obtain r' where "evaluate_band K p m k rv' rm' [] = Inr r'" "?P r0 r'"
        by blast
      then show ?thesis using Bands True p r0(2) by (simp add: get_energy_wrapper_def)
    next
      case False
      then obtain sp rs where sp: "\<not> ragged rows" "spwre p k = Inr sp" "length sp = length rows"
        and rs: "sequence (map (evaluate_band K p m k rv rm) (transpose rows)) = Inr rs"
        "r = PerColumn rs"
        using assms(1) p Bands
        by (auto simp: get_energy_wrapper_def map_sum_id_Inr split: if_splits sum.splits)
      from sequence_map_weaken[of "evaluate_band K p m k rv rm" "transpose rows" rs
          "evaluate_band K p m k rv' rm'" ?P, OF rs(1)] one
      obtain rs' where rs': "sequence (map (evaluate_band K p m k rv' rm') (transpose rows)) = Inr rs'"
        "list_all2 ?P rs rs'" by blast
      have e: "map energy rs' = map energy rs"
        by (rule map_banded_cong_list) (use rs'(2) in \<open>simp add: list_all2_conv_all_nth\<close>)
      have v: "rv' \<Longrightarrow> map velocity rs' = map velocity rs"
        by (rule map_banded_cong_list) (use rs'(2) in \<open>simp add: list_all2_conv_all_nth\<close>)
      have ma: "rm' \<Longrightarrow> map effective_mass rs' = map effective_mass rs"
        by (rule map_banded_cong_list) (use rs'(2) in \<open>simp add: list_all2_conv_all_nth\<close>)
      show ?thesis
        using Bands False p sp rs' rs(2) e v ma by (simp add: get_energy_wrapper_def)
    qed
  qed
qed

lemma bulk_map_Inr:
  assumes "(if n = 1 then sequential_map f ks else pool_map n ch f ks) = Inr rs"
  shows "length rs = length ks \<and> (\<forall>i<length ks. f (ks ! i) = Inr (rs ! i))"
  using assms sequential_map_Inr[of f ks rs] pool_map_Inr[of n ch f ks rs]
  by (cases "n = 1") simp_all

lemma get_energies_Inr:
  assumes "get_energies K ch self ks ib scissor is_cb rv rm = (Inr res, self')"
  shows "\<exists>c rs. interpolation_coefficients self ib = (Inr c, self') \<and>
           length rs = length ks \<and>
           (\<forall>i<length ks. get_energy_wrapper K c (global_entry self') (lattice_matrix self')
                 (ks ! i) True rm = Inr (rs ! i)) \<and>
           energies res = map (map_banded (\<lambda>r. energy r -
               (if is_cb = Some True then - 1 else 1) * scissor_value scissor / 2)) rs \<and>
           velocities res = (if rv then Some (map (map_banded velocity) rs) else None) \<and>
           effective_masses res = (if rm then Some (map (map_banded effective_mass) rs) else None)"
proof -
  have ns: "\<not> (scissor_value scissor \<noteq> 0 \<and> is_cb = None)"
    using assms by (auto simp: get_energies_unfold split: if_splits)
  obtain r s1 where Pair: "interpolation_coefficients self ib = (r, s1)" by fastforce
  obtain c where Inr: "r = Inr c"
    using assms ns Pair by (cases r) (auto simp: get_energies_unfold)
  let ?f = "\<lambda>entry kpoint. get_energy_wrapper K c entry (lattice_matrix s1) kpoint True rm"
  let ?m = "if n_jobs s1 = 1 then sequential_map (?f (worker_entry s1)) ks
            else pool_map (n_jobs s1) ch (?f (worker_entry s1)) ks"
  obtain rs where rs: "?m = Inr rs"
    using assms ns Pair Inr by (cases ?m) (auto simp: get_energies_unfold)
  have eq: "(Inr res, self') = (Inr \<lparr>energies = map (map_banded (\<lambda>r. energy r -
               (if is_cb = Some True then - 1 else 1) * scissor_value scissor / 2)) rs,
           velocities = (if rv then Some (map (map_banded velocity) rs) else None),
           effective_masses = (if rm then Some (map (map_banded effective_mass) rs) else None)\<rparr>, s1)"
    using assms ns Pair Inr rs unfolding get_energies_unfold
    by (simp split: if_splits)
  have w: "length rs = length ks \<and> (\<forall>i<length ks. ?f (worker_entry s1) (ks ! i) = Inr (rs ! i))"
    by (rule bulk_map_Inr[OF rs])
  have "?f (global_entry s1) (ks ! i) = Inr (rs ! i)" if "i < length ks" for i
  proof (cases "worker_entry s1 = global_entry s1")
    case True
    then show ?thesis using w that by simp
  next
    case False
    then have "worker_entry s1 = None" by (auto simp: worker_entry_def split: if_splits)
    then have "?f (worker_entry s1) (ks ! i) = Inl KeyError"
      by (simp add: get_energy_wrapper_def)
    then show ?thesis using w that by simp
  qed
  with w eq Pair Inr show ?thesis
    by (intro exI[of _ c] exI[of _ rs]) auto
qed

lemma get_energy_unfold:
  "interpolation_coefficients self ib = (Inr c, self') \<Longrightarrow>
   get_energy K self k ib rv rm =
     (get_energy_wrapper K c (global_entry self') (lattice_matrix self') k rv rm, self')"
  by (simp add: get_energy_def)

section \<open>The scissor shift\<close>

text \<open>
  Claim C5. When a bulk evaluation with scissor \<open>s\<close> and a given \<open>is_cb\<close> flag returns,
  it returns one energy per k-point, and each is the energy that \<open>get_energy\<close> gives at
  that k-point minus \<open>(-1 if is_cb else 1) * s / 2\<close>; with \<open>s = 0\<close> it is that energy
  itself. A call with scissor \<open>0.0\<close> gives what the call without a scissor gives.
\<close>

theorem scissor_shift:
  "(get_energies K choices self kpoints iband (Some s) (Some cb) rv rm = (Inr res, self') \<longrightarrow>
      length (energies res) = length kpoints \<and>
      (\<forall>i<length kpoints. \<exists>ev.
          fst (get_energy K self (kpoints ! i) iband False False) = Inr ev \<and>
          energies res ! i =
            map_banded (\<lambda>r. energy r - (if cb then - 1 else 1) * s / 2) ev \<and>
          (s = 0 \<longrightarrow> energies res ! i = map_banded energy ev)))
   \<and> get_energies K choices self kpoints iband (Some 0) is_cb rv rm =
       get_energies K choices self kpoints iband None is_cb rv rm"
proof (intro conjI impI)
  assume a: "get_energies K choices self kpoints iband (Some s) (Some cb) rv rm = (Inr res, self')"
  from get_energies_Inr[OF a] obtain c rs where
    c: "interpolation_coefficients self iband = (Inr c, self')"
    and len: "length rs = length kpoints"
    and rs: "\<forall>i<length kpoints. get_energy_wrapper K c (global_entry self') (lattice_matrix self')
                 (kpoints ! i) True rm = Inr (rs ! i)"
    and en: "energies res = map (map_banded (\<lambda>r. energy r -
               (if Some cb = Some True then - 1 else 1) * scissor_value (Some s) / 2)) rs"
    by blast
  show "length (energies res) = length kpoints" using en len by simp
  show "\<forall>i<length kpoints. \<exists>ev.
          fst (get_energy K self (kpoints ! i) iband False False) = Inr ev \<and>
          energies res ! i =
            map_banded (\<lambda>r. energy r - (if cb then - 1 else 1) * s / 2) ev \<and>
          (s = 0 \<longrightarrow> energies res ! i = map_banded energy ev)"
  proof (intro allI impI)
    fix i assume i: "i < length kpoints"
    then have w: "get_energy_wrapper K c (global_entry self') (lattice_matrix self')
                 (kpoints ! i) True rm = Inr (rs ! i)" using rs by blast
    from get_energy_wrapper_weaken[OF w, of False False] obtain ev where
      ev: "get_energy_wrapper K c (global_entry self') (lattice_matrix self')
                 (kpoints ! i) False False = Inr ev"
      "map_banded energy ev = map_banded energy (rs ! i)" by blast
    have shift: "map_banded (\<lambda>r. energy r - d) (rs ! i) = map_banded (\<lambda>r. energy r - d) ev" for d
    proof -
      have "map_banded (\<lambda>r. energy r - d) x = map_banded (\<lambda>e. e - d) (map_banded energy x)"
        for x :: "evaluation banded"
        by (simp add: banded.map_comp comp_def)
      then show ?thesis using ev(2) by simp
    qed
    have "energies res ! i = map_banded (\<lambda>r. energy r - (if cb then - 1 else 1) * s / 2) (rs ! i)"
      using en i len by (simp add: scissor_value_def)
    then have e1: "energies res ! i = map_banded (\<lambda>r. energy r - (if cb then - 1 else 1) * s / 2) ev"
      using shift by simp
    moreover have "s = 0 \<Longrightarrow> energies res ! i = map_banded energy ev"
      using e1 by simp
    moreover have "fst (get_energy K self (kpoints ! i) iband False False) = Inr ev"
      using get_energy_unfold[OF c] ev(1) by simp
    ultimately show "\<exists>ev.
          fst (get_energy K self (kpoints ! i) iband False False) = Inr ev \<and>
          energies res ! i =
            map_banded (\<lambda>r. energy r - (if cb then - 1 else 1) * s / 2) ev \<and>
          (s = 0 \<longrightarrow> energies res ! i = map_banded energy ev)" by blast
  qed
next
  show "get_energies K choices self kpoints iband (Some 0) is_cb rv rm =
       get_energies K choices self kpoints iband None is_cb rv rm"
    by (simp add: get_energies_def)
qed

section \<open>The one-band example, evaluated\<close>

lemma trunc_simps [simp]: "trunc 0 = 0" "trunc 1 = 1" "trunc (- 1) = - 1"
  by (simp_all add: trunc_def ceiling_minus)

lemma astype_int_simps [simp]:
  "astype_int 0 = 0" "astype_int 1 = 1" "astype_int (- 1) = - 1"
  by (simp_all add: astype_int_def)

lemma wrap64_simps [simp]: "wrap64 0 = 0" "wrap64 1 = 1" "wrap64 2 = 2" "wrap64 3 = 3"
  by (simp_all add: wrap64_def)

lemma take_sym_ops_of:
  "n \<le> 192 \<Longrightarrow> take n (sym_ops_of xs) = map (sym_op_at (map astype_int xs)) [0..<n]"
  by (simp add: sym_ops_of_def take_map)

lemma one_band_parse_record:
  "get_interpolation_parameters one_band_file =
     Inr \<lparr>num_symmetries = 1, coefficients = [[1 / 2]], min_band = 1, max_band = 1,
          allowed_ibands = {1..1}, num_star_vectors = [1], star_vectors = [[(1, 0, 0)]],
          star_vector_products = [[(1, 0, 0)]],
          star_vector_products_sq = [[((1, 0, 0), (0, 0, 0), (0, 0, 0))]]\<rparr>"
  by (simp add: get_interpolation_parameters_def star_parameters_def one_band_file_def ln_def
      fraction_line_def readline_def zeros_check_def
      read_count_def row_of_def cell_of_def calculate_star_function_def take_sym_ops_of
      sym_op_at_def unique_rows_def products_sq_row_def zero3_def zero33_def nth_append
      Let_def)

lemma one_band_parse: "get_interpolation_parameters one_band_file = Inr one_band_parameters"
  unfolding one_band_parameters_def by (rule one_band_parse_record)

lemma one_band_coefficients:
  "get_interpolation_coefficients one_band_parameters (Index 1) = Inr (Band [1 / 2])"
  by (simp add: get_interpolation_coefficients_def one_band_parameters_def fancy_index_def
      index_one_def)

lemma one_band_spwre: "spwre one_band_parameters (0, 0, 0) = Inr [1]"
  by (simp add: spwre_def arg_def one_band_parameters_def broadcast2_def)

lemma one_band_dspwre: "dspwre one_band_parameters (0, 0, 0) = Inr [(0, 0, 0)]"
  by (simp add: dspwre_def arg_def one_band_parameters_def broadcast2_def sum3_def zero3_def)

lemma one_band_ddspwre:
  "ddspwre one_band_parameters (0, 0, 0) = Inr [((- 1, 0, 0), (0, 0, 0), (0, 0, 0))]"
  by (simp add: ddspwre_def arg_def one_band_parameters_def broadcast2_def sum33_def
      zero3_def zero33_def)

lemma one_band_evaluate:
  "evaluate_band unit_constants one_band_parameters identity33 (0, 0, 0) True False [1 / 2] =
     Inr \<lparr>energy = 1 / 2, velocity = Some (0, 0, 0), effective_mass = None\<rparr>"
  by (simp add: evaluate_band_def one_band_spwre one_band_dspwre dot_real_def dot_vec_def
      velocity_of_def unit_constants_def identity33_def sum3_def zero3_def)

lemma one_band_interpolation_coefficients:
  "interpolation_coefficients (fresh_interpolater one_band_file n) (Index 1) =
     (Inr (Band [1 / 2]),
      (fresh_interpolater one_band_file n)
        \<lparr>parameters_id := True, global_entry := Some one_band_parameters\<rparr>)"
  by (simp add: interpolation_coefficients_def parameters_def initialize_def lookup_def
      fresh_interpolater_def one_band_parse one_band_coefficients Let_def)

lemma one_band_get_energies:
  "get_energies unit_constants [] (fresh_interpolater one_band_file 1) [(0, 0, 0)] (Index 1)
     (Some 2) (Some True) False False =
   (Inr \<lparr>energies = [Scalar (3 / 2)], velocities = None, effective_masses = None\<rparr>,
    (fresh_interpolater one_band_file 1)
        \<lparr>parameters_id := True, global_entry := Some one_band_parameters\<rparr>)"
  by (simp add: get_energies_def one_band_interpolation_coefficients)
    (simp add: sequential_map_def get_energy_wrapper_def
      one_band_evaluate fresh_interpolater_def)

lemma one_band_get_energies_pool:
  "get_energies unit_constants [] (fresh_interpolater one_band_file 4) [(0, 0, 0)] (Index 1)
     (Some 2) (Some True) False False =
   (Inr \<lparr>energies = [Scalar (3 / 2)], velocities = None, effective_masses = None\<rparr>,
    (fresh_interpolater one_band_file 4)
        \<lparr>parameters_id := True, global_entry := Some one_band_parameters\<rparr>)"
  by (simp add: get_energies_def one_band_interpolation_coefficients)
    (simp add: pool_map_def get_energy_wrapper_def
      one_band_evaluate fresh_interpolater_def)

theorem scissor_shift_witness:
  "get_energies unit_constants [] (fresh_interpolater one_band_file 1) [(0, 0, 0)] (Index 1)
     (Some 2) (Some True) False False =
   (Inr \<lparr>energies = [Scalar (3 / 2)], velocities = None, effective_masses = None\<rparr>,
    (fresh_interpolater one_band_file 1)
        \<lparr>parameters_id := True, global_entry := Some one_band_parameters\<rparr>)
   \<and> (\<exists>ev. fst (get_energy unit_constants (fresh_interpolater one_band_file 1) (0, 0, 0)
                  (Index 1) False False) = Inr ev \<and>
            Scalar (3 / 2) = map_banded (\<lambda>r. energy r - (- 1) * 2 / 2) ev)"
proof -
  note run = one_band_get_energies
  from scissor_shift[THEN conjunct1, rule_format, OF run]
  have "\<forall>i<length [(0, 0, 0) :: vec3]. \<exists>ev.
          fst (get_energy unit_constants (fresh_interpolater one_band_file 1)
                ([(0, 0, 0)] ! i) (Index 1) False False) = Inr ev \<and>
          energies \<lparr>energies = [Scalar (3 / 2)], velocities = None, effective_masses = None\<rparr> ! i =
            map_banded (\<lambda>r. energy r - (if True then - 1 else 1) * 2 / 2) ev \<and>
          (2 = (0::real) \<longrightarrow> energies \<lparr>energies = [Scalar (3 / 2)], velocities = None,
              effective_masses = None\<rparr> ! i = map_banded energy ev)"
    by blast
  then have "\<exists>ev. fst (get_energy unit_constants (fresh_interpolater one_band_file 1) (0, 0, 0)
                  (Index 1) False False) = Inr ev \<and>
            Scalar (3 / 2) = map_banded (\<lambda>r. energy r - (- 1) * 2 / 2) ev"
    by simp
  with run show ?thesis by blast
qed

section \<open>Velocities and the worker pool\<close>

lemma velocity_of_nonneg: "positive_constants K \<Longrightarrow> nonneg3 (velocity_of K m d)"
  by (cases "abs3 (mat_vec (map33 (\<lambda>x. x / norm33 m) m) d)")
     (auto simp: velocity_of_def positive_constants_def dest: sym[of _ "abs3 _"]
       elim!: abs3.elims)

lemma evaluate_band_velocity:
  assumes "positive_constants K" "evaluate_band K p m k True rm c = Inr r"
  shows "\<exists>w. velocity r = Some w \<and> nonneg3 w"
proof -
  have "velocity r \<in> Some ` range (velocity_of K m)"
    using assms(2) unfolding evaluate_band_def
    by (auto split: sum.splits if_splits)
  then show ?thesis using velocity_of_nonneg[OF assms(1)] by blast
qed

lemma get_energy_wrapper_velocity:
  assumes "positive_constants K" "get_energy_wrapper K c entry m k True rm = Inr r"
  shows "\<forall>v\<in>set_banded (map_banded velocity r). \<exists>w. v = Some w \<and> nonneg3 w"
proof -
  obtain p where p: "entry = Some p"
    using assms(2) by (cases entry) (auto simp: get_energy_wrapper_def)
  show ?thesis
  proof (cases c)
    case (Band v)
    then show ?thesis using assms p
      by (auto simp: get_energy_wrapper_def map_sum_id_Inr dest: evaluate_band_velocity)
  next
    case (Bands rows)
    show ?thesis
    proof (cases "rows = []")
      case True
      then show ?thesis using assms p Bands
        by (auto simp: get_energy_wrapper_def map_sum_id_Inr dest: evaluate_band_velocity)
    next
      case False
      then obtain rs where rs: "sequence (map (evaluate_band K p m k True rm) (transpose rows)) = Inr rs"
        "r = PerColumn rs"
        using assms(2) p Bands
        by (auto simp: get_energy_wrapper_def map_sum_id_Inr split: if_splits sum.splits)
      have "\<exists>w. velocity x = Some w \<and> nonneg3 w" if "x \<in> set rs" for x
      proof -
        from rs(1) have "map (evaluate_band K p m k True rm) (transpose rows) = map Inr rs"
          by (rule sequence_Inr_D)
        then have "Inr x \<in> set (map (evaluate_band K p m k True rm) (transpose rows))"
          using that by simp
        then obtain col where "evaluate_band K p m k True rm col = Inr x" by auto
        from evaluate_band_velocity[OF assms(1) this] show ?thesis .
      qed
      then show ?thesis using rs(2) by auto
    qed
  qed
qed


text \<open>
  Claim C8. With positive unit constants, a bulk evaluation asked for velocities returns
  one velocity per k-point; every component of it is non-negative (the absolute value is
  taken), and it is the velocity that \<open>get_energy\<close> with \<open>return_velocity=True\<close> returns
  for the same k-point, band request and lattice matrix.
\<close>

theorem bulk_velocity:
  assumes "positive_constants K"
    and "get_energies K choices self kpoints iband scissor is_cb True rm = (Inr res, self')"
  shows "\<exists>vs. velocities res = Some vs \<and> length vs = length kpoints \<and>
           (\<forall>i<length kpoints.
              (\<forall>v\<in>set_banded (vs ! i). \<exists>w. v = Some w \<and> nonneg3 w) \<and>
              (\<exists>ev. fst (get_energy K self (kpoints ! i) iband True False) = Inr ev \<and>
                    vs ! i = map_banded velocity ev))"
proof -
  from get_energies_Inr[OF assms(2)] obtain c rs where
    c: "interpolation_coefficients self iband = (Inr c, self')"
    and len: "length rs = length kpoints"
    and rs: "\<forall>i<length kpoints. get_energy_wrapper K c (global_entry self') (lattice_matrix self')
                 (kpoints ! i) True rm = Inr (rs ! i)"
    and ve: "velocities res = (if True then Some (map (map_banded velocity) rs) else None)"
    by blast
  let ?vs = "map (map_banded velocity) rs"
  have "(\<forall>v\<in>set_banded (?vs ! i). \<exists>w. v = Some w \<and> nonneg3 w) \<and>
        (\<exists>ev. fst (get_energy K self (kpoints ! i) iband True False) = Inr ev \<and>
              ?vs ! i = map_banded velocity ev)" if i: "i < length kpoints" for i
  proof -
    have w: "get_energy_wrapper K c (global_entry self') (lattice_matrix self')
                 (kpoints ! i) True rm = Inr (rs ! i)" using rs i by blast
    from get_energy_wrapper_weaken[OF w, of True False] obtain ev where
      ev: "get_energy_wrapper K c (global_entry self') (lattice_matrix self')
                 (kpoints ! i) True False = Inr ev"
      "map_banded velocity ev = map_banded velocity (rs ! i)" by blast
    have "fst (get_energy K self (kpoints ! i) iband True False) = Inr ev"
      using get_energy_unfold[OF c] ev(1) by simp
    moreover have "?vs ! i = map_banded velocity ev" using ev(2) i len by simp
    moreover have "\<forall>v\<in>set_banded (?vs ! i). \<exists>w. v = Some w \<and> nonneg3 w"
      using get_energy_wrapper_velocity[OF assms(1) w] i len by simp
    ultimately show ?thesis by blast
  qed
  then show ?thesis using ve len by simp
qed

lemma one_band_get_energies_velocity:
  "get_energies unit_constants [] (fresh_interpolater one_band_file 1) [(0, 0, 0)] (Index 1)
     None None True False =
   (Inr \<lparr>energies = [Scalar (1 / 2)], velocities = Some [Scalar (Some (0, 0, 0))],
         effective_masses = None\<rparr>,
    (fresh_interpolater one_band_file 1)
        \<lparr>parameters_id := True, global_entry := Some one_band_parameters\<rparr>)"
  by (simp add: get_energies_def one_band_interpolation_coefficients)
    (simp add: sequential_map_def get_energy_wrapper_def one_band_evaluate
      fresh_interpolater_def)

theorem bulk_velocity_witness:
  "positive_constants unit_constants \<and>
   get_energies unit_constants [] (fresh_interpolater one_band_file 1) [(0, 0, 0)] (Index 1)
     None None True False =
   (Inr \<lparr>energies = [Scalar (1 / 2)], velocities = Some [Scalar (Some (0, 0, 0))],
         effective_masses = None\<rparr>,
    (fresh_interpolater one_band_file 1)
        \<lparr>parameters_id := True, global_entry := Some one_band_parameters\<rparr>) \<and>
   (\<exists>ev. fst (get_energy unit_constants (fresh_interpolater one_band_file 1) (0, 0, 0)
             (Index 1) True False) = Inr ev \<and>
         Scalar (Some (0, 0, 0)) = map_banded velocity ev)"
proof -
  have pos: "positive_constants unit_constants"
    by (simp add: positive_constants_def unit_constants_def)
  note run = one_band_get_energies_velocity
  from bulk_velocity[OF pos run] obtain vs where
    vs: "velocities \<lparr>energies = [Scalar (1 / 2)], velocities = Some [Scalar (Some (0, 0, 0))],
           effective_masses = None\<rparr> = Some vs"
    and all: "\<forall>i<length [(0, 0, 0) :: vec3].
        (\<forall>v\<in>set_banded (vs ! i). \<exists>w. v = Some w \<and> nonneg3 w) \<and>
        (\<exists>ev. fst (get_energy unit_constants (fresh_interpolater one_band_file 1)
                     ([(0, 0, 0)] ! i) (Index 1) True False) = Inr ev \<and>
              vs ! i = map_banded velocity ev)"
    by blast
  from vs have "vs = [Scalar (Some (0, 0, 0))]" by simp
  with all have "\<exists>ev. fst (get_energy unit_constants (fresh_interpolater one_band_file 1)
             (0, 0, 0) (Index 1) True False) = Inr ev \<and>
         Scalar (Some (0, 0, 0)) = map_banded velocity ev"
    by simp
  with pos run show ?thesis by blast
qed

section \<open>What the parser establishes\<close>

lemma wrap64_in: "in_int64 (wrap64 x)"
  by (simp add: wrap64_def in_int64_def)

lemma wrap64_id: "in_int64 x \<Longrightarrow> wrap64 x = x"
  by (simp add: wrap64_def in_int64_def)

lemma in_int64_0 [simp]: "in_int64 0"
  by (simp add: in_int64_def)

lemma read_lines_bands:
  "read_lines n i ls vars = Inr vars' \<Longrightarrow>
   in_int64 (fst (snd (snd (snd vars)))) \<Longrightarrow> in_int64 (snd (snd (snd (snd vars)))) \<Longrightarrow>
   in_int64 (fst (snd (snd (snd vars')))) \<and> in_int64 (snd (snd (snd (snd vars'))))"
proof (induction n i ls vars rule: read_lines.induct)
  case (1 n i vars)
  then show ?case by simp
next
  case (2 n i l ls gs cs ib lo hi)
  show ?case
  proof (cases "i < n")
    case True
    then show ?thesis using "2.IH"(1) "2.prems"
      by (auto split: sum.splits)
  next
    case False
    note nlt = this
    show ?thesis
    proof (cases "i = n")
      case True
      then show ?thesis using "2.IH"(2) "2.prems"
        by (auto simp: Let_def wrap64_in split: list.splits)
    next
      case False
      then show ?thesis using nlt "2.IH"(3,4) "2.prems"
        by (auto simp: Let_def split: if_splits)
    qed
  qed
qed

lemma star_parameters_Inr:
  assumes "star_parameters nsym cell ops gs cs lo hi = Inr p"
  shows "min_band p = lo" "max_band p = hi" "coefficients p = cs" "num_symmetries p = nsym"
    "allowed_ibands p = set [lo..wrap64 (hi + 1) - 1]"
    "0 \<le> nsym" "gs \<noteq> []"
    "num_star_vectors p = map (\<lambda>g. fst (calculate_star_function ops nsym g)) gs"
    "star_vectors p = map (\<lambda>g. snd (calculate_star_function ops nsym g)) gs"
    "star_vector_products p = map (map (\<lambda>v. vec_mat v cell)) (star_vectors p)"
  using assms unfolding star_parameters_def
  by (auto simp: Let_def zeros_check_def comp_def split: option.splits if_splits)

lemma parsed:
  assumes "get_interpolation_parameters f = Inr p"
  shows "\<exists>nsym cell flat gs cs lo hi.
           star_parameters nsym cell (sym_ops_of flat) gs cs lo hi = Inr p \<and>
           in_int64 lo \<and> in_int64 hi"
proof -
  from assms obtain n nsym cell flat rest2 gs cs ib lo hi where
    rl: "read_lines n 0 rest2 (replicate (nat n) zero3, [], [], 0, 0) = Inr (gs, cs, ib, lo, hi)"
    and sp: "star_parameters nsym cell (sym_ops_of flat) gs cs lo hi = Inr p"
    unfolding get_interpolation_parameters_def
    by (auto simp: Let_def split: list.splits option.splits prod.splits sum.splits)
  from read_lines_bands[OF rl] have "in_int64 lo \<and> in_int64 hi" by simp
  with sp show ?thesis by blast
qed

lemma parsed_shape:
  assumes "get_interpolation_parameters f = Inr p"
  shows "length (num_star_vectors p) = length (star_vectors p)"
    and "length (star_vector_products p) = length (star_vectors p)"
    and "star_vectors p \<noteq> []"
    and "0 \<le> num_symmetries p"
proof -
  from parsed[OF assms] obtain nsym cell flat gs cs lo hi where
    sp: "star_parameters nsym cell (sym_ops_of flat) gs cs lo hi = Inr p" by blast
  note e = star_parameters_Inr[OF sp]
  show "length (num_star_vectors p) = length (star_vectors p)" using e(8,9) by simp
  show "length (star_vector_products p) = length (star_vectors p)" using e(10) by simp
  show "star_vectors p \<noteq> []" using e(7,9) by simp
  show "0 \<le> num_symmetries p" using e(4,6) by simp
qed

lemma upto_wrap:
  assumes "in_int64 lo" "in_int64 hi"
  shows "set [lo..wrap64 (hi + 1) - 1] = (if hi = 2 ^ 63 - 1 then {} else {lo..hi})"
proof (cases "hi = 2 ^ 63 - 1")
  case True
  then have "wrap64 (hi + 1) = - (2 ^ 63)" by (simp add: wrap64_def)
  then show ?thesis using True assms(1) by (simp add: in_int64_def)
next
  case False
  then have "in_int64 (hi + 1)" using assms(2) by (simp add: in_int64_def)
  then have "wrap64 (hi + 1) = hi + 1" by (rule wrap64_id)
  then show ?thesis using False by simp
qed

lemma parsed_bands:
  assumes "get_interpolation_parameters f = Inr p"
  shows "in_int64 (min_band p)" "in_int64 (max_band p)"
    "allowed_ibands p = (if max_band p = 2 ^ 63 - 1 then {} else {min_band p..max_band p})"
proof -
  from parsed[OF assms] obtain nsym cell flat gs cs lo hi where
    sp: "star_parameters nsym cell (sym_ops_of flat) gs cs lo hi = Inr p"
    and r: "in_int64 lo" "in_int64 hi" by blast
  note e = star_parameters_Inr[OF sp]
  show "in_int64 (min_band p)" "in_int64 (max_band p)" using e r by simp_all
  show "allowed_ibands p = (if max_band p = 2 ^ 63 - 1 then {} else {min_band p..max_band p})"
    using e(1,2,5) upto_wrap[OF r] by simp
qed

section \<open>Band requests\<close>

lemma sorted_list_of_set_atLeastAtMost_int: "sorted_list_of_set {lo..hi::int} = [lo..hi]"
proof -
  have "sorted_list_of_set (set [lo..hi]) = [lo..hi]"
    by (rule sorted_list_of_set.idem_if_sorted_distinct) simp_all
  then show ?thesis by simp
qed

lemma get_interpolation_coefficients_unfold:
  "get_interpolation_coefficients p req =
     (if \<not> set (selected_ibands p req) \<subseteq> allowed_ibands p
      then Inl (BandOutOfRange (band_message (min_band p) (max_band p)))
      else (case fancy_index (coefficients p)
                   (map (\<lambda>b. wrap64 (b - min_band p)) (selected_ibands p req)) of
              Inl err \<Rightarrow> Inl err
            | Inr rows \<Rightarrow> if length (selected_ibands p req) = 1 then Inr (Band (rows ! 0))
                         else Inr (Bands rows)))"
  by (cases req)
    (simp_all add: get_interpolation_coefficients_def selected_ibands_def Let_def
      split: sum.splits)

lemma fancy_index_in_range:
  assumes "\<forall>i\<in>set idx. 0 \<le> i \<and> i < int (length xs)"
  shows "fancy_index xs idx = Inr (map (\<lambda>i. xs ! nat i) idx)"
proof -
  have "map (index_one xs) idx = map (\<lambda>i. Inr (xs ! nat i)) idx"
    using assms by (auto simp: index_one_def)
  then show ?thesis unfolding fancy_index_def by (simp only: sequence_map_total)
qed

lemma fancy_index_beyond:
  assumes "\<forall>i\<in>set idx. 0 \<le> i" "\<exists>i\<in>set idx. int (length xs) \<le> i"
  shows "fancy_index xs idx = Inl IndexError"
proof (cases "fancy_index xs idx")
  case (Inl e)
  then have "\<exists>i\<in>set idx. index_one xs i = Inl e"
    unfolding fancy_index_def by (rule sequence_map_Inl)
  then show ?thesis using Inl index_one_Inl by blast
next
  case (Inr ys)
  then have m: "map (index_one xs) idx = map Inr ys"
    unfolding fancy_index_def by (rule sequence_Inr_D)
  from assms obtain i where i: "i \<in> set idx" "int (length xs) \<le> i" "0 \<le> i" by blast
  then have "index_one xs i = Inl IndexError" by (simp add: index_one_def)
  moreover have "index_one xs i \<in> set (map (index_one xs) idx)" using i(1) by simp
  ultimately show ?thesis unfolding m by auto
qed

lemma str_message:
  "\<exists>pre mid post. band_message lo hi = pre @ str_int lo @ mid @ str_int hi @ post"
  unfolding band_message_def by blast

lemma upto_1_2: "[1..2] = [1, 2 :: int]"
  by code_simp

lemma upto_1_3: "[1..3] = [1, 2, 3 :: int]"
  by code_simp

lemma wrap64_4: "wrap64 4 = 4"
  by (simp add: wrap64_def)

lemma atLeastAtMost_1_2: "{1..2::int} = {1, 2}"
  by auto

lemma atLeastAtMost_1_3: "{1..3::int} = {1, 2, 3}"
  by auto

lemma two_band_parse:
  "get_interpolation_parameters two_band_file = Inr two_band_parameters"
  unfolding two_band_parameters_def
  by (simp add: get_interpolation_parameters_def star_parameters_def two_band_file_def ln_def
      fraction_line_def readline_def zeros_check_def
      read_count_def row_of_def cell_of_def calculate_star_function_def take_sym_ops_of
      sym_op_at_def unique_rows_def products_sq_row_def zero3_def zero33_def nth_append
      Let_def upto_1_2 atLeastAtMost_1_2)

lemma short_band_parse:
  "get_interpolation_parameters short_band_file = Inr short_band_parameters"
  unfolding short_band_parameters_def
  by (simp add: get_interpolation_parameters_def star_parameters_def short_band_file_def ln_def
      fraction_line_def readline_def zeros_check_def
      read_count_def row_of_def cell_of_def calculate_star_function_def take_sym_ops_of
      sym_op_at_def unique_rows_def products_sq_row_def zero3_def zero33_def nth_append
      Let_def upto_1_3 atLeastAtMost_1_3 wrap64_4)

lemma parameters_fresh:
  "get_interpolation_parameters f = Inr p \<Longrightarrow>
   parameters (fresh_interpolater f n) =
     (Inr p, (fresh_interpolater f n)\<lparr>parameters_id := True, global_entry := Some p\<rparr>)"
  by (simp add: parameters_def initialize_def lookup_def fresh_interpolater_def Let_def)

lemma parameters_Inr:
  assumes "parameters self = (Inr p, self')"
  shows "global_entry self' = Some p \<and> lattice_matrix self' = lattice_matrix self \<and>
         n_jobs self' = n_jobs self \<and> fork_start self' = fork_start self"
  using assms unfolding parameters_def initialize_def lookup_def
  by (auto simp: Let_def split: if_splits sum.splits option.splits)

lemma interpolation_coefficients_parameters:
  "parameters self = (Inr p, self') \<Longrightarrow>
   interpolation_coefficients self req = (get_interpolation_coefficients p req, self')"
  by (simp add: interpolation_coefficients_def)

lemma get_energy_coefficients_error:
  "interpolation_coefficients self req = (Inl e, self') \<Longrightarrow>
   get_energy K self k req rv rm = (Inl e, self')"
  by (simp add: get_energy_def)

lemma get_energies_coefficients_error:
  "interpolation_coefficients self req = (Inl e, self') \<Longrightarrow>
   \<not> (scissor_value scissor \<noteq> 0 \<and> is_cb = None) \<Longrightarrow>
   get_energies K ch self ks req scissor is_cb rv rm = (Inl e, self')"
  by (auto simp: get_energies_unfold)

lemma wrap64_difference:
  assumes "lo \<le> b" "b \<le> hi" "hi - lo < 2 ^ 63"
  shows "wrap64 (b - lo) = b - lo"
  by (rule wrap64_id) (use assms in \<open>simp add: in_int64_def\<close>)

lemma selected_rows:
  assumes "set sel \<subseteq> {lo..hi}" "hi - lo < 2 ^ 63"
    and "\<forall>b\<in>set sel. b - lo < int (length xs)"
  shows "fancy_index xs (map (\<lambda>b. wrap64 (b - lo)) sel) = Inr (map (\<lambda>b. xs ! nat (b - lo)) sel)"
proof -
  have w: "map (\<lambda>b. wrap64 (b - lo)) sel = map (\<lambda>b. b - lo) sel"
    using assms(1,2) by (intro map_cong refl wrap64_difference[of lo _ hi]) auto
  have r: "\<forall>i\<in>set (map (\<lambda>b. b - lo) sel). 0 \<le> i \<and> i < int (length xs)"
    using assms(1,3) by auto
  show ?thesis unfolding w using fancy_index_in_range[OF r] by (simp add: comp_def)
qed

lemma selected_rows_beyond:
  assumes "set sel \<subseteq> {lo..hi}" "hi - lo < 2 ^ 63"
    and "\<exists>b\<in>set sel. int (length xs) \<le> b - lo"
  shows "fancy_index xs (map (\<lambda>b. wrap64 (b - lo)) sel) = Inl IndexError"
proof -
  have w: "map (\<lambda>b. wrap64 (b - lo)) sel = map (\<lambda>b. b - lo) sel"
    using assms(1,2) by (intro map_cong refl wrap64_difference[of lo _ hi]) auto
  show ?thesis unfolding w
    by (rule fancy_index_beyond) (use assms(1,3) in auto)
qed

lemma band_lookup:
  assumes al: "allowed_ibands p = {min_band p..max_band p}"
    and sp: "max_band p - min_band p < 2 ^ 63"
    and ins: "set (selected_ibands p req) \<subseteq> {min_band p..max_band p}"
  shows "(\<forall>b\<in>set (selected_ibands p req). b - min_band p < int (length (coefficients p))) \<longrightarrow>
           get_interpolation_coefficients p req = Inr (band_block p (selected_ibands p req))"
    and "(\<exists>b\<in>set (selected_ibands p req). int (length (coefficients p)) \<le> b - min_band p) \<longrightarrow>
           get_interpolation_coefficients p req = Inl IndexError"
proof -
  let ?sel = "selected_ibands p req"
  have sub: "set ?sel \<subseteq> allowed_ibands p" using ins al by simp
  show "(\<forall>b\<in>set ?sel. b - min_band p < int (length (coefficients p))) \<longrightarrow>
           get_interpolation_coefficients p req = Inr (band_block p ?sel)"
  proof
    assume a: "\<forall>b\<in>set ?sel. b - min_band p < int (length (coefficients p))"
    have one: "map (\<lambda>b. coefficients p ! nat (b - min_band p)) ?sel ! 0 =
        coefficients p ! nat (hd ?sel - min_band p)" if "length ?sel = 1"
      using that by (cases ?sel) auto
    show "get_interpolation_coefficients p req = Inr (band_block p ?sel)"
      using sub selected_rows[OF ins sp a] one
      by (simp add: get_interpolation_coefficients_unfold band_block_def)
  qed
  show "(\<exists>b\<in>set ?sel. int (length (coefficients p)) \<le> b - min_band p) \<longrightarrow>
           get_interpolation_coefficients p req = Inl IndexError"
  proof
    assume a: "\<exists>b\<in>set ?sel. int (length (coefficients p)) \<le> b - min_band p"
    show "get_interpolation_coefficients p req = Inl IndexError"
      using sub selected_rows_beyond[OF ins sp a]
      by (simp add: get_interpolation_coefficients_unfold)
  qed
qed

section \<open>Band indices\<close>

lemma get_energy_coefficients:
  "interpolation_coefficients self req = (Inr c, self') \<Longrightarrow> global_entry self' = Some p \<Longrightarrow>
   lattice_matrix self' = m \<Longrightarrow>
   get_energy K self k req rv rm = (get_energy_wrapper K c (Some p) m k rv rm, self')"
  by (simp add: get_energy_def)

text \<open>
  Claim C4, as the code has it. Let \<open>p\<close> be the parameters parsed from the file of the
  interpolater. If a requested index lies outside \<open>[min_band, max_band]\<close>, the coefficient
  lookup, \<open>get_energy\<close> and (once past the scissor check) \<open>get_energies\<close> fail with the
  error whose message is built from \<open>min_band\<close> and \<open>max_band\<close> and so contains both. The
  same error meets every request when \<open>max_band\<close> is the largest int64, since
  \<open>max_band + 1\<close> wraps around and no band is allowed. Otherwise, for indices inside the
  range that spans less than \<open>2^63\<close> bands: if the file holds a coefficient line for every
  selected band, the lookup returns the rows at the indices minus \<open>min_band\<close> (all rows when
  no index is requested) and \<open>get_energy\<close> is the evaluation on these rows; if the file
  ends before the line of a selected band, the lookup and the evaluation operations fail
  with an \<open>IndexError\<close>.
\<close>

theorem band_index_handling:
  assumes "get_interpolation_parameters f = Inr p" and "parameters self = (Inr p, self')"
  shows "((\<exists>b\<in>set (requested req). b < min_band p \<or> max_band p < b) \<or>
          (max_band p = 2 ^ 63 - 1 \<and> requested req \<noteq> []) \<longrightarrow>
            get_interpolation_coefficients p req =
              Inl (BandOutOfRange (band_message (min_band p) (max_band p))) \<and>
            get_energy K self kpoint req rv rm =
              (Inl (BandOutOfRange (band_message (min_band p) (max_band p))), self') \<and>
            (\<not> (scissor_value scissor \<noteq> 0 \<and> is_cb = None) \<longrightarrow>
               get_energies K choices self kpoints req scissor is_cb rv rm =
                 (Inl (BandOutOfRange (band_message (min_band p) (max_band p))), self')))
       \<and> (\<exists>pre mid post. band_message (min_band p) (max_band p) =
              pre @ str_int (min_band p) @ mid @ str_int (max_band p) @ post)
       \<and> (max_band p \<noteq> 2 ^ 63 - 1 \<and> max_band p - min_band p < 2 ^ 63 \<and>
          (\<forall>b\<in>set (requested req). min_band p \<le> b \<and> b \<le> max_band p) \<longrightarrow>
            selected_ibands p req =
              (if requested req = [] then [min_band p..max_band p] else requested req) \<and>
            ((\<forall>b\<in>set (selected_ibands p req). b - min_band p < int (length (coefficients p))) \<longrightarrow>
               get_interpolation_coefficients p req = Inr (band_block p (selected_ibands p req)) \<and>
               get_energy K self kpoint req rv rm =
                 (get_energy_wrapper K (band_block p (selected_ibands p req)) (Some p)
                    (lattice_matrix self) kpoint rv rm, self')) \<and>
            ((\<exists>b\<in>set (selected_ibands p req). int (length (coefficients p)) \<le> b - min_band p) \<longrightarrow>
               get_interpolation_coefficients p req = Inl IndexError \<and>
               get_energy K self kpoint req rv rm = (Inl IndexError, self') \<and>
               (\<not> (scissor_value scissor \<noteq> 0 \<and> is_cb = None) \<longrightarrow>
                  get_energies K choices self kpoints req scissor is_cb rv rm =
                    (Inl IndexError, self'))))"
proof (intro conjI impI)
  note al = parsed_bands(3)[OF assms(1)]
  note st = parameters_Inr[OF assms(2)]
  note ic = interpolation_coefficients_parameters[OF assms(2), of req]
  let ?msg = "BandOutOfRange (band_message (min_band p) (max_band p))"
  {
    assume out: "(\<exists>b\<in>set (requested req). b < min_band p \<or> max_band p < b) \<or>
          (max_band p = 2 ^ 63 - 1 \<and> requested req \<noteq> [])"
    then have ne: "requested req \<noteq> []" by auto
    then have sel: "selected_ibands p req = requested req" by (simp add: selected_ibands_def)
    have ns: "\<not> set (selected_ibands p req) \<subseteq> allowed_ibands p"
    proof (cases "max_band p = 2 ^ 63 - 1")
      case True
      then show ?thesis using ne al by (simp add: sel)
    next
      case False
      then show ?thesis using out al by (auto simp: sel)
    qed
    show gc: "get_interpolation_coefficients p req = Inl ?msg"
      using ns by (simp add: get_interpolation_coefficients_unfold)
    have ic': "interpolation_coefficients self req = (Inl ?msg, self')"
      using ic gc by simp
    show "get_energy K self kpoint req rv rm = (Inl ?msg, self')"
      by (rule get_energy_coefficients_error[OF ic'])
    assume "\<not> (scissor_value scissor \<noteq> 0 \<and> is_cb = None)"
    then show "get_energies K choices self kpoints req scissor is_cb rv rm = (Inl ?msg, self')"
      by (rule get_energies_coefficients_error[OF ic'])
  }
  show "\<exists>pre mid post. band_message (min_band p) (max_band p) =
              pre @ str_int (min_band p) @ mid @ str_int (max_band p) @ post"
    by (rule str_message)
  {
    assume h: "max_band p \<noteq> 2 ^ 63 - 1 \<and> max_band p - min_band p < 2 ^ 63 \<and>
          (\<forall>b\<in>set (requested req). min_band p \<le> b \<and> b \<le> max_band p)"
    then have al': "allowed_ibands p = {min_band p..max_band p}" using al by simp
    show sel: "selected_ibands p req =
              (if requested req = [] then [min_band p..max_band p] else requested req)"
      by (simp add: selected_ibands_def al' sorted_list_of_set_atLeastAtMost_int)
    have ins: "set (selected_ibands p req) \<subseteq> {min_band p..max_band p}"
      using h by (auto simp: sel)
    have sp: "max_band p - min_band p < 2 ^ 63" using h by simp
    note bl = band_lookup[OF al' sp ins]
    {
      assume a: "\<forall>b\<in>set (selected_ibands p req). b - min_band p < int (length (coefficients p))"
      show gc: "get_interpolation_coefficients p req = Inr (band_block p (selected_ibands p req))"
        using bl(1) a by blast
      have ic': "interpolation_coefficients self req =
          (Inr (band_block p (selected_ibands p req)), self')"
        using ic gc by simp
      show "get_energy K self kpoint req rv rm =
                 (get_energy_wrapper K (band_block p (selected_ibands p req)) (Some p)
                    (lattice_matrix self) kpoint rv rm, self')"
        by (rule get_energy_coefficients[OF ic']) (use st in simp_all)
    }
    {
      assume a: "\<exists>b\<in>set (selected_ibands p req). int (length (coefficients p)) \<le> b - min_band p"
      show gc: "get_interpolation_coefficients p req = Inl IndexError"
        using bl(2) a by blast
      have ic': "interpolation_coefficients self req = (Inl IndexError, self')"
        using ic gc by simp
      show "get_energy K self kpoint req rv rm = (Inl IndexError, self')"
        by (rule get_energy_coefficients_error[OF ic'])
      assume "\<not> (scissor_value scissor \<noteq> 0 \<and> is_cb = None)"
      then show "get_energies K choices self kpoints req scissor is_cb rv rm =
                    (Inl IndexError, self')"
        by (rule get_energies_coefficients_error[OF ic'])
    }
  }
qed

lemma str_int_1: "str_int 1 = ''1''"
  by (simp add: str_int_def)

theorem band_index_handling_witness:
  "get_interpolation_parameters one_band_file = Inr one_band_parameters \<and>
   parameters (fresh_interpolater one_band_file 1) =
     (Inr one_band_parameters,
      (fresh_interpolater one_band_file 1)
        \<lparr>parameters_id := True, global_entry := Some one_band_parameters\<rparr>) \<and>
   get_energy unit_constants (fresh_interpolater one_band_file 1) (0, 0, 0) (Index 2) False False =
     (Inl (BandOutOfRange
        ''At least one band is not in range : 1-1. Try increasing max_Ecut to include more bands.''),
      (fresh_interpolater one_band_file 1)
        \<lparr>parameters_id := True, global_entry := Some one_band_parameters\<rparr>) \<and>
   get_interpolation_coefficients one_band_parameters (Index 1) = Inr (Band [1 / 2]) \<and>
   get_energy unit_constants (fresh_interpolater one_band_file 1) (0, 0, 0) (Index 1) True False =
     (Inr (Scalar \<lparr>energy = 1 / 2, velocity = Some (0, 0, 0), effective_mass = None\<rparr>),
      (fresh_interpolater one_band_file 1)
        \<lparr>parameters_id := True, global_entry := Some one_band_parameters\<rparr>)"
proof -
  note r = one_band_parse
  note q = parameters_fresh[OF one_band_parse, of 1]
  note t = band_index_handling[OF r q]
  have out: "(\<exists>b\<in>set (requested (Index 2)). b < min_band one_band_parameters \<or>
      max_band one_band_parameters < b) \<or>
      (max_band one_band_parameters = 2 ^ 63 - 1 \<and> requested (Index 2) \<noteq> [])"
    by (simp add: one_band_parameters_def)
  have ins: "max_band one_band_parameters \<noteq> 2 ^ 63 - 1 \<and>
      max_band one_band_parameters - min_band one_band_parameters < 2 ^ 63 \<and>
      (\<forall>b\<in>set (requested (Index 1)). min_band one_band_parameters \<le> b \<and>
      b \<le> max_band one_band_parameters)"
    by (simp add: one_band_parameters_def)
  have m: "band_message (min_band one_band_parameters) (max_band one_band_parameters) =
      ''At least one band is not in range : 1-1. Try increasing max_Ecut to include more bands.''"
    by (simp add: band_message_def one_band_parameters_def str_int_1)
  have a: "get_energy unit_constants (fresh_interpolater one_band_file 1) (0, 0, 0) (Index 2)
      False False =
     (Inl (BandOutOfRange (band_message (min_band one_band_parameters)
        (max_band one_band_parameters))),
      (fresh_interpolater one_band_file 1)
        \<lparr>parameters_id := True, global_entry := Some one_band_parameters\<rparr>)"
    using t[of "Index 2" unit_constants "(0, 0, 0)" False False] out by blast
  have sel: "selected_ibands one_band_parameters (Index 1) = [1]"
    by (simp add: selected_ibands_def)
  have rows: "\<forall>b\<in>set (selected_ibands one_band_parameters (Index 1)).
      b - min_band one_band_parameters < int (length (coefficients one_band_parameters))"
    unfolding sel by (simp add: one_band_parameters_def)
  have blk: "band_block one_band_parameters (selected_ibands one_band_parameters (Index 1)) =
      Band [1 / 2]"
    unfolding sel by (simp add: band_block_def one_band_parameters_def)
  have b: "get_interpolation_coefficients one_band_parameters (Index 1) = Inr (Band [1 / 2])"
    using t[of "Index 1"] ins rows unfolding blk by blast
  have c: "get_energy unit_constants (fresh_interpolater one_band_file 1) (0, 0, 0) (Index 1)
      True False =
     (get_energy_wrapper unit_constants (Band [1 / 2]) (Some one_band_parameters)
        (lattice_matrix (fresh_interpolater one_band_file 1)) (0, 0, 0) True False,
      (fresh_interpolater one_band_file 1)
        \<lparr>parameters_id := True, global_entry := Some one_band_parameters\<rparr>)"
    using t[of "Index 1" unit_constants "(0, 0, 0)" True False] ins rows unfolding blk by blast
  have c': "get_energy_wrapper unit_constants (Band [1 / 2]) (Some one_band_parameters)
        (lattice_matrix (fresh_interpolater one_band_file 1)) (0, 0, 0) True False =
      Inr (Scalar \<lparr>energy = 1 / 2, velocity = Some (0, 0, 0), effective_mass = None\<rparr>)"
    by (simp add: get_energy_wrapper_def one_band_evaluate fresh_interpolater_def)
  show ?thesis using r q a b c unfolding m c' by blast
qed

text \<open>
  The claim's second half fails on a file that ends early: \<open>short_band_file\<close> announces
  the bands 1 to 3 and holds the coefficients of band 1 only. It parses, the index 2 lies
  inside \<open>[min_band, max_band]\<close>, and the evaluation fails with an \<open>IndexError\<close>.
\<close>

theorem band_inside_range_raises:
  "get_interpolation_parameters short_band_file = Inr short_band_parameters \<and>
   min_band short_band_parameters = 1 \<and> max_band short_band_parameters = 3 \<and>
   get_energy unit_constants (fresh_interpolater short_band_file 1) (0, 0, 0) (Index 2)
     False False =
     (Inl IndexError,
      (fresh_interpolater short_band_file 1)
        \<lparr>parameters_id := True, global_entry := Some short_band_parameters\<rparr>)"
proof -
  have "get_interpolation_coefficients short_band_parameters (Index 2) = Inl IndexError"
    by (simp add: get_interpolation_coefficients_def short_band_parameters_def fancy_index_def
        index_one_def)
  then have "get_energy unit_constants (fresh_interpolater short_band_file 1) (0, 0, 0) (Index 2)
     False False =
     (Inl IndexError,
      (fresh_interpolater short_band_file 1)
        \<lparr>parameters_id := True, global_entry := Some short_band_parameters\<rparr>)"
    by (simp add: get_energy_def interpolation_coefficients_def
        parameters_fresh[OF short_band_parse])
  then show ?thesis
    using short_band_parse by (simp add: short_band_parameters_def)
qed

section \<open>More than one band\<close>

lemma sequential_map_all_fail:
  "(\<And>x. f x = Inl e) \<Longrightarrow> ks \<noteq> [] \<Longrightarrow> sequential_map f ks = Inl e"
  by (cases ks) (simp_all add: sequential_map_def)

lemma pool_map_all_fail:
  assumes "\<And>x. f x = Inl e" "ks \<noteq> []" "1 \<le> n"
  shows "pool_map n ch f ks = Inl e"
  using pool_map_eq_sequential_map[of n f ch ks] assms sequential_map_all_fail[of f e ks]
  by simp

lemma pool_map_Nil: "1 \<le> n \<Longrightarrow> pool_map n ch f [] = Inr []"
  by (simp add: pool_map_def)

lemma pool_map_size: "n < 1 \<Longrightarrow> pool_map n ch f ks = Inl PoolSize"
  by (simp add: pool_map_def)

lemma spwre_length:
  assumes "length (num_star_vectors p) = length (star_vectors p)" "spwre p k = Inr sp"
  shows "length sp = length (star_vectors p)"
  using broadcast2_length[OF assms(2)[unfolded spwre_def]] assms(1) by simp

lemma get_energy_wrapper_bands_fail:
  assumes "length (num_star_vectors p) = length (star_vectors p)"
    and "rows \<noteq> []" "length rows \<noteq> length (star_vectors p)"
  shows "get_energy_wrapper K (Bands rows) (Some p) m k rv rm = Inl ShapeError"
proof (cases "spwre p k")
  case (Inl e)
  then show ?thesis using assms(2) spwre_Inl[OF Inl]
    by (simp add: get_energy_wrapper_def)
next
  case (Inr sp)
  then show ?thesis using assms(2,3) spwre_length[OF assms(1) Inr]
    by (simp add: get_energy_wrapper_def)
qed

lemma get_energies_evaluation:
  assumes "interpolation_coefficients self req = (Inr c, self')"
    and "\<not> (scissor_value scissor \<noteq> 0 \<and> is_cb = None)"
  shows "n_jobs self' < 1 \<Longrightarrow>
           get_energies K ch self ks req scissor is_cb rv rm = (Inl PoolSize, self')"
    and "1 \<le> n_jobs self' \<Longrightarrow>
           get_energies K ch self [] req scissor is_cb rv rm =
             (Inr \<lparr>energies = [], velocities = (if rv then Some [] else None),
                   effective_masses = (if rm then Some [] else None)\<rparr>, self')"
    and "1 \<le> n_jobs self' \<Longrightarrow> ks \<noteq> [] \<Longrightarrow>
         (\<And>k. get_energy_wrapper K c (worker_entry self') (lattice_matrix self') k True rm = Inl e) \<Longrightarrow>
           get_energies K ch self ks req scissor is_cb rv rm = (Inl e, self')"
proof -
  show "get_energies K ch self ks req scissor is_cb rv rm = (Inl PoolSize, self')"
    if "n_jobs self' < 1"
    using assms(1) that by (simp add: get_energies_unfold assms(2) pool_map_size)
  show "get_energies K ch self [] req scissor is_cb rv rm =
             (Inr \<lparr>energies = [], velocities = (if rv then Some [] else None),
                   effective_masses = (if rm then Some [] else None)\<rparr>, self')"
    if "1 \<le> n_jobs self'"
    using assms(1) that
    by (simp add: get_energies_unfold assms(2) pool_map_Nil sequential_map_def)
  show "get_energies K ch self ks req scissor is_cb rv rm = (Inl e, self')"
    if "1 \<le> n_jobs self'" "ks \<noteq> []"
      "\<And>k. get_energy_wrapper K c (worker_entry self') (lattice_matrix self') k True rm = Inl e"
  proof -
    let ?f = "\<lambda>k. get_energy_wrapper K c (worker_entry self') (lattice_matrix self') k True rm"
    have s: "sequential_map ?f ks = Inl e"
      by (rule sequential_map_all_fail) (use that in auto)
    have p: "pool_map (n_jobs self') ch ?f ks = Inl e"
      by (rule pool_map_all_fail) (use that in auto)
    show ?thesis using assms(1) s p by (simp add: get_energies_unfold assms(2))
  qed
qed

text \<open>
  Claim C10, as the code has it. Let \<open>p\<close> be the parameters parsed from the file of the
  interpolater, and let the selected coefficients be a matrix of two or more rows whose
  number is not the number of G-vectors. Then \<open>get_energy\<close> fails with a shape error at
  the dot product. \<open>get_energies\<close>, once past the scissor check, fails with the same
  error when it evaluates at least one k-point in a process that has the parameters; for
  an empty list of k-points it returns empty lists; with less than one job it fails when
  the pool is made; and in workers that do not have the parameters it fails with a
  \<open>KeyError\<close>.
\<close>

theorem multi_band_shape_error:
  assumes "get_interpolation_parameters f = Inr p" and "parameters self = (Inr p, self')"
    and "get_interpolation_coefficients p req = Inr (Bands rows)"
    and "2 \<le> length rows" and "\<not> ragged rows"
    and "length rows \<noteq> length (star_vectors p)"
  shows "get_energy K self kpoint req rv rm = (Inl ShapeError, self')
       \<and> (\<not> (scissor_value scissor \<noteq> 0 \<and> is_cb = None) \<longrightarrow>
            (kpoints \<noteq> [] \<and> (n_jobs self = 1 \<or> 1 \<le> n_jobs self \<and> fork_start self) \<longrightarrow>
               get_energies K choices self kpoints req scissor is_cb rv rm =
                 (Inl ShapeError, self')) \<and>
            (kpoints \<noteq> [] \<and> 1 < n_jobs self \<and> \<not> fork_start self \<longrightarrow>
               get_energies K choices self kpoints req scissor is_cb rv rm =
                 (Inl KeyError, self')) \<and>
            (1 \<le> n_jobs self \<longrightarrow>
               get_energies K choices self [] req scissor is_cb rv rm =
                 (Inr \<lparr>energies = [], velocities = (if rv then Some [] else None),
                       effective_masses = (if rm then Some [] else None)\<rparr>, self')) \<and>
            (n_jobs self < 1 \<longrightarrow>
               get_energies K choices self kpoints req scissor is_cb rv rm =
                 (Inl PoolSize, self')))"
proof -
  have ic: "interpolation_coefficients self req = (Inr (Bands rows), self')"
    using interpolation_coefficients_parameters[OF assms(2), of req] assms(3) by simp
  note st = parameters_Inr[OF assms(2)]
  have ne: "rows \<noteq> []" using assms(4) by auto
  have w: "get_energy_wrapper K (Bands rows) (Some p) m k rv' rm' = Inl ShapeError"
    for m k rv' rm'
    by (rule get_energy_wrapper_bands_fail[OF parsed_shape(1)[OF assms(1)] ne assms(6)])
  have ge: "get_energy K self kpoint req rv rm = (Inl ShapeError, self')"
    using get_energy_unfold[OF ic] w st by simp
  {
    assume ns: "\<not> (scissor_value scissor \<noteq> 0 \<and> is_cb = None)"
    note ev = get_energies_evaluation[OF ic ns]
    have a: "get_energies K choices self kpoints req scissor is_cb rv rm = (Inl ShapeError, self')"
      if "kpoints \<noteq> [] \<and> (n_jobs self = 1 \<or> 1 \<le> n_jobs self \<and> fork_start self)"
    proof (rule ev(3))
      show "1 \<le> n_jobs self'" using that st by auto
      show "kpoints \<noteq> []" using that by simp
      have "worker_entry self' = Some p" using that st by (auto simp: worker_entry_def)
      then show "get_energy_wrapper K (Bands rows) (worker_entry self') (lattice_matrix self') k
          True rm = Inl ShapeError" for k
        using w by simp
    qed
    have b: "get_energies K choices self kpoints req scissor is_cb rv rm = (Inl KeyError, self')"
      if "kpoints \<noteq> [] \<and> 1 < n_jobs self \<and> \<not> fork_start self"
    proof (rule ev(3))
      show "1 \<le> n_jobs self'" using that st by auto
      show "kpoints \<noteq> []" using that by simp
      have "worker_entry self' = None" using that st by (auto simp: worker_entry_def)
      then show "get_energy_wrapper K (Bands rows) (worker_entry self') (lattice_matrix self') k
          True rm = Inl KeyError" for k
        by (simp add: get_energy_wrapper_def)
    qed
    have c: "get_energies K choices self [] req scissor is_cb rv rm =
                 (Inr \<lparr>energies = [], velocities = (if rv then Some [] else None),
                       effective_masses = (if rm then Some [] else None)\<rparr>, self')"
      if "1 \<le> n_jobs self"
      by (rule ev(2)) (use that st in simp)
    have d: "get_energies K choices self kpoints req scissor is_cb rv rm = (Inl PoolSize, self')"
      if "n_jobs self < 1"
      by (rule ev(1)) (use that st in simp)
    note a b c d
  }
  with ge show ?thesis by blast
qed

lemma two_band_block:
  "get_interpolation_coefficients two_band_parameters (Indices [1, 2]) =
     Inr (Bands [[1 / 2], [1 / 4]])"
  by (simp add: get_interpolation_coefficients_def two_band_parameters_def fancy_index_def
      index_one_def)

theorem multi_band_shape_error_witness:
  "get_interpolation_parameters two_band_file = Inr two_band_parameters \<and>
   get_interpolation_coefficients two_band_parameters (Indices [1, 2]) =
     Inr (Bands [[1 / 2], [1 / 4]]) \<and>
   \<not> ragged [[1 / 2], [1 / 4 :: real]] \<and>
   length (star_vectors two_band_parameters) = 1 \<and>
   get_energy unit_constants (fresh_interpolater two_band_file 1) (0, 0, 0) (Indices [1, 2])
       False False =
     (Inl ShapeError,
      (fresh_interpolater two_band_file 1)
        \<lparr>parameters_id := True, global_entry := Some two_band_parameters\<rparr>) \<and>
   get_energies unit_constants [] (fresh_interpolater two_band_file 1) [(0, 0, 0)]
       (Indices [1, 2]) None None False False =
     (Inl ShapeError,
      (fresh_interpolater two_band_file 1)
        \<lparr>parameters_id := True, global_entry := Some two_band_parameters\<rparr>)"
proof -
  note q = parameters_fresh[OF two_band_parse, of 1]
  have r: "\<not> ragged [[1 / 2], [1 / 4 :: real]]" by (simp add: ragged_def)
  have n2: "2 \<le> length [[1 / 2], [1 / 4 :: real]]" by simp
  have g: "length [[1 / 2], [1 / 4 :: real]] \<noteq> length (star_vectors two_band_parameters)"
    by (simp add: two_band_parameters_def)
  note t = multi_band_shape_error[OF two_band_parse q two_band_block n2 r g,
      of unit_constants "(0, 0, 0)" False False None None "[(0, 0, 0)]" "[]"]
  have ns: "\<not> (scissor_value None \<noteq> 0 \<and> (None :: bool option) = None)"
    by (simp add: scissor_value_def)
  have k: "[(0, 0, 0) :: vec3] \<noteq> [] \<and> (n_jobs (fresh_interpolater two_band_file 1) = 1 \<or>
      1 \<le> n_jobs (fresh_interpolater two_band_file 1) \<and>
      fork_start (fresh_interpolater two_band_file 1))"
    by (simp add: fresh_interpolater_def)
  have a: "get_energy unit_constants (fresh_interpolater two_band_file 1) (0, 0, 0)
       (Indices [1, 2]) False False =
     (Inl ShapeError,
      (fresh_interpolater two_band_file 1)
        \<lparr>parameters_id := True, global_entry := Some two_band_parameters\<rparr>)"
    using t by blast
  have b: "get_energies unit_constants [] (fresh_interpolater two_band_file 1) [(0, 0, 0)]
       (Indices [1, 2]) None None False False =
     (Inl ShapeError,
      (fresh_interpolater two_band_file 1)
        \<lparr>parameters_id := True, global_entry := Some two_band_parameters\<rparr>)"
    using t ns k by blast
  have "length (star_vectors two_band_parameters) = 1"
    by (simp add: two_band_parameters_def)
  with two_band_parse two_band_block r a b show ?thesis by blast
qed

text \<open>
  The claim fails for an empty list of k-points: two bands are selected for one G-vector,
  and \<open>get_energies\<close> returns the empty list of energies instead of a shape error.
\<close>

theorem multi_band_no_kpoints_returns:
  "get_interpolation_coefficients two_band_parameters (Indices [1, 2]) =
     Inr (Bands [[1 / 2], [1 / 4]]) \<and>
   length (star_vectors two_band_parameters) = 1 \<and>
   get_energies unit_constants [] (fresh_interpolater two_band_file 1) []
       (Indices [1, 2]) None None False False =
     (Inr \<lparr>energies = [], velocities = None, effective_masses = None\<rparr>,
      (fresh_interpolater two_band_file 1)
        \<lparr>parameters_id := True, global_entry := Some two_band_parameters\<rparr>)"
proof -
  have ic: "interpolation_coefficients (fresh_interpolater two_band_file 1) (Indices [1, 2]) =
      (Inr (Bands [[1 / 2], [1 / 4]]),
       (fresh_interpolater two_band_file 1)
        \<lparr>parameters_id := True, global_entry := Some two_band_parameters\<rparr>)"
    by (simp add: interpolation_coefficients_def parameters_fresh[OF two_band_parse]
        two_band_block)
  have "get_energies unit_constants [] (fresh_interpolater two_band_file 1) []
       (Indices [1, 2]) None None False False =
     (Inr \<lparr>energies = [], velocities = None, effective_masses = None\<rparr>,
      (fresh_interpolater two_band_file 1)
        \<lparr>parameters_id := True, global_entry := Some two_band_parameters\<rparr>)"
    by (simp add: get_energies_unfold ic scissor_value_def)
      (simp add: sequential_map_def fresh_interpolater_def)
  then show ?thesis using two_band_block by (simp add: two_band_parameters_def)
qed

section \<open>The number of workers\<close>











section \<open>The energy formula\<close>

lemma sum_list_nth: "sum_list xs = (\<Sum>i<length xs. xs ! i)" for xs :: "real list"
  by (simp add: sum_list_sum_nth atLeast0LessThan)

lemma arg_nth:
  "g < length (star_vectors p) \<Longrightarrow> i < length (star_vectors p ! g) \<Longrightarrow>
   arg p k ! g ! i = phase_spec p k g i"
  by (simp add: arg_def phase_spec_def)

lemma row_cos_sum:
  assumes "g < length (star_vectors p)"
  shows "sum_list (map cos (arg p k ! g)) = (\<Sum>i<length (star_vectors p ! g). cos (phase_spec p k g i))"
proof -
  have "sum_list (map cos (arg p k ! g)) = (\<Sum>i<length (map cos (arg p k ! g)). map cos (arg p k ! g) ! i)"
    by (rule sum_list_nth)
  also have "\<dots> = (\<Sum>i<length (star_vectors p ! g). cos (phase_spec p k g i))"
    using assms by (intro sum.cong) (simp_all add: arg_nth)
  finally show ?thesis .
qed

lemma spwre_spec:
  assumes "length (num_star_vectors p) = length (star_vectors p)"
  shows "spwre p k = Inr (map (S_spec p k) [0..<length (star_vectors p)])"
proof -
  let ?f = "\<lambda>s nst. (s - (real_of_int (num_symmetries p) - real nst)) / real nst"
  let ?xs = "map (\<lambda>row. sum_list (map cos row)) (arg p k)"
  have "spwre p k = Inr (map2 ?f ?xs (num_star_vectors p))"
    using assms by (simp add: spwre_def broadcast2_def sequence_map2_total)
  moreover have "map2 ?f ?xs (num_star_vectors p) = map (S_spec p k) [0..<length (star_vectors p)]"
    using assms by (intro nth_equalityI) (simp_all add: S_spec_def row_cos_sum)
  ultimately show ?thesis by simp
qed

lemma dot_real_spec:
  assumes "length c = n"
  shows "dot_real (map f [0..<n]) c = Inr (\<Sum>g<n. f g * c ! g)"
proof -
  have "sum_list (map2 (*) (map f [0..<n]) c) =
        (\<Sum>i<length (map2 (*) (map f [0..<n]) c). map2 (*) (map f [0..<n]) c ! i)"
    by (rule sum_list_nth)
  also have "\<dots> = (\<Sum>g<n. f g * c ! g)"
    using assms by (intro sum.cong) simp_all
  finally show ?thesis using assms by (simp add: dot_real_def)
qed


lemma wrapper_energy_formula:
  assumes "length (num_star_vectors p) = length (star_vectors p)"
    and "length c = length (star_vectors p)"
  shows "get_energy_wrapper K (Band c) (Some p) matrix kpoint False False =
            Inr (Scalar \<lparr>energy = energy_spec K p kpoint c, velocity = None,
                        effective_mass = None\<rparr>)"
    and "get_energy_wrapper K (Band c) (Some p) matrix kpoint rv rm = Inr r \<Longrightarrow>
             map_banded energy r = Scalar (energy_spec K p kpoint c)"
proof -
  have sp: "spwre p kpoint = Inr (map (S_spec p kpoint) [0..<length (star_vectors p)])"
    by (rule spwre_spec[OF assms(1)])
  have ev: "evaluate_band K p matrix kpoint False False c =
      Inr \<lparr>energy = energy_spec K p kpoint c, velocity = None, effective_mass = None\<rparr>"
    by (simp add: evaluate_band_def sp dot_real_spec[OF assms(2)] energy_spec_def)
  show w: "get_energy_wrapper K (Band c) (Some p) matrix kpoint False False =
            Inr (Scalar \<lparr>energy = energy_spec K p kpoint c, velocity = None,
                        effective_mass = None\<rparr>)"
    by (simp add: get_energy_wrapper_def ev)
  assume "get_energy_wrapper K (Band c) (Some p) matrix kpoint rv rm = Inr r"
  from get_energy_wrapper_weaken[OF this, of False False] w
  show "map_banded energy r = Scalar (energy_spec K p kpoint c)" by auto
qed

text \<open>
  Claim C1. Let \<open>p\<close> be the parameters parsed from the file of the interpolater and \<open>c\<close>
  the coefficient row of a band, with one coefficient per G-vector. At every k-point the
  evaluator computes the phases \<open>2 * pi * dot(star_vectors[g][i], kpoint)\<close> and the
  symmetrised basis functions \<open>S[g]\<close> of the spec, and \<open>get_energy\<close> returns the energy
  \<open>dot(S, c) * Ry_to_eV\<close>, also when the velocity or the effective mass is asked for.
\<close>

theorem energy_formula:
  assumes "get_interpolation_parameters f = Inr p" and "parameters self = (Inr p, self')"
    and "get_interpolation_coefficients p (Index b) = Inr (Band c)"
    and "length c = length (star_vectors p)"
  shows "(\<forall>g<length (star_vectors p). \<forall>i<length (star_vectors p ! g).
            arg p kpoint ! g ! i = 2 * pi * dot3 (star_vectors p ! g ! i) kpoint)
       \<and> spwre p kpoint = Inr (map (S_spec p kpoint) [0..<length (star_vectors p)])
       \<and> get_energy K self kpoint (Index b) False False =
            (Inr (Scalar \<lparr>energy = energy_spec K p kpoint c, velocity = None,
                         effective_mass = None\<rparr>), self')
       \<and> (\<forall>rv rm r. fst (get_energy K self kpoint (Index b) rv rm) = Inr r \<longrightarrow>
             map_banded energy r = Scalar (energy_spec K p kpoint c))"
proof (intro conjI allI impI)
  note len = parsed_shape(1)[OF assms(1)]
  note st = parameters_Inr[OF assms(2)]
  have ic: "interpolation_coefficients self (Index b) = (Inr (Band c), self')"
    using interpolation_coefficients_parameters[OF assms(2), of "Index b"] assms(3) by simp
  have ge: "get_energy K self kpoint (Index b) rv rm =
      (get_energy_wrapper K (Band c) (Some p) (lattice_matrix self') kpoint rv rm, self')"
    for rv rm
    using get_energy_unfold[OF ic] st by simp
  {
    fix g i assume "g < length (star_vectors p)" "i < length (star_vectors p ! g)"
    then show "arg p kpoint ! g ! i = 2 * pi * dot3 (star_vectors p ! g ! i) kpoint"
      by (simp add: arg_nth phase_spec_def)
  }
  show "spwre p kpoint = Inr (map (S_spec p kpoint) [0..<length (star_vectors p)])"
    by (rule spwre_spec[OF len])
  show "get_energy K self kpoint (Index b) False False =
            (Inr (Scalar \<lparr>energy = energy_spec K p kpoint c, velocity = None,
                         effective_mass = None\<rparr>), self')"
    unfolding ge by (simp add: wrapper_energy_formula(1)[OF len assms(4)])
  {
    fix rv rm r
    assume "fst (get_energy K self kpoint (Index b) rv rm) = Inr r"
    then have "get_energy_wrapper K (Band c) (Some p) (lattice_matrix self') kpoint rv rm = Inr r"
      unfolding ge by simp
    then show "map_banded energy r = Scalar (energy_spec K p kpoint c)"
      by (rule wrapper_energy_formula(2)[OF len assms(4)])
  }
qed

lemma one_band_energy_spec:
  "energy_spec unit_constants one_band_parameters (1 / 2, 0, 0) [1 / 2] = - (1 / 2)"
  by (simp add: energy_spec_def S_spec_def phase_spec_def one_band_parameters_def
      unit_constants_def)

theorem energy_formula_witness:
  "get_interpolation_parameters one_band_file = Inr one_band_parameters \<and>
   get_interpolation_coefficients one_band_parameters (Index 1) = Inr (Band [1 / 2]) \<and>
   length [1 / 2 :: real] = length (star_vectors one_band_parameters) \<and>
   get_energy unit_constants (fresh_interpolater one_band_file 1) (1 / 2, 0, 0) (Index 1)
     False False =
   (Inr (Scalar \<lparr>energy = - (1 / 2), velocity = None, effective_mass = None\<rparr>),
    (fresh_interpolater one_band_file 1)
      \<lparr>parameters_id := True, global_entry := Some one_band_parameters\<rparr>)"
proof -
  note q = parameters_fresh[OF one_band_parse, of 1]
  have b: "length [1 / 2 :: real] = length (star_vectors one_band_parameters)"
    by (simp add: one_band_parameters_def)
  from energy_formula[OF one_band_parse q one_band_coefficients b, of "(1 / 2, 0, 0)"
      unit_constants]
  have "get_energy unit_constants (fresh_interpolater one_band_file 1) (1 / 2, 0, 0) (Index 1)
     False False =
   (Inr (Scalar \<lparr>energy = energy_spec unit_constants one_band_parameters (1 / 2, 0, 0) [1 / 2],
          velocity = None, effective_mass = None\<rparr>),
    (fresh_interpolater one_band_file 1)
      \<lparr>parameters_id := True, global_entry := Some one_band_parameters\<rparr>)"
    by blast
  then show ?thesis using one_band_parse one_band_coefficients b
    by (simp add: one_band_energy_spec)
qed

end
